theory Spec2Isabelle
  imports Main "HOL-Library.Word"
begin

unbundle bit_operations_syntax

section \<open>The broker connection core of the Kafka client (package kgo, broker.go)\<close>

text \<open>
  The model follows the Go source function by function and keeps its names.  Go's
  fixed-width integers are words; \<open>int\<close> and \<open>len\<close> values are \<open>nat\<close> or \<open>int\<close>.
  Logging and the hook callbacks do not change any state the functions below read and
  are left out, as are the latency metrics threaded to the hooks (\<open>writeWait\<close>,
  \<open>timeToWrite\<close>, \<open>readEnqueue\<close>).  Everything the code obtains from outside (the
  clock, the socket, the dialer, the SASL mechanism, the message codec) is read from an
  explicit \<open>world\<close> or \<open>Client\<close> value, so that every theorem quantifies over all
  behaviours of these collaborators.
\<close>

subsection \<open>Machine types\<close>

type_synonym byte = "8 word"
type_synonym int16 = "16 word"
type_synonym uint16 = "16 word"
type_synonym int32 = "32 word"
type_synonym uint32 = "32 word"
type_synonym int64 = "64 word"

text \<open>A \<open>time.Time\<close> is an instant in nanoseconds counted from Go's zero time, so that
  \<open>IsZero\<close> is equality with 0; a \<open>time.Duration\<close> is an \<open>int64\<close> of nanoseconds.\<close>

type_synonym time = int
type_synonym Duration = int64

subsection \<open>Errors\<close>

text \<open>The text chosen by \<open>parseReadSize\<close> for the TLS record version: one of the five
  names of its table, or the \<open>Sprintf\<close> of the unknown version number.\<close>

datatype version_guess = UnknownTLSVersion uint16 | KnownVersion string

text \<open>Error values.  The sentinel errors keep their Go names; an error built with
  \<open>fmt.Errorf\<close> or \<open>errors.New\<close> is a constructor holding the arguments of its format
  string.  \<open>ErrExternal\<close> stands for any error value produced outside this file (socket
  I/O, contexts, the codec, a SASL mechanism).\<close>

datatype error =
    errUnknownRequestKey
  | errBrokerTooOld
  | errSaslReauthLoop
  | errChosenBrokerDead
  | errCorrelationIDMismatch
  | ErrClientClosed
  | ErrNotEnoughData
  | ErrInvalidNegativeSize int32
  | ErrLargeSizeHTTP int32 int32
  | ErrLargeSizeTLS int32 int32 version_guess
  | ErrLargeSize int32 int32
  | ErrShortApiVersions nat
  | ErrUnsupportedVersionV0
  | ErrReadApiVersions error
  | ErrNoApiKeys
  | ErrUnexpectedServerWrite string
  | ErrUnableToDial error
  | ErrKafka int16
  | ErrKafkaMsg string error
  | ErrExternal string

subsection \<open>encoding/binary: big-endian 32-bit values\<close>

text \<open>\<open>binary.BigEndian.Uint32\<close> and \<open>binary.BigEndian.PutUint32\<close> of the Go library, on
  the first four bytes of a slice.\<close>

definition BigEndian_Uint32 :: "byte list \<Rightarrow> uint32" where
  "BigEndian_Uint32 b =
     (ucast (b ! 3) OR push_bit 8 (ucast (b ! 2)) OR push_bit 16 (ucast (b ! 1))
        OR push_bit 24 (ucast (b ! 0)))"

definition BigEndian_PutUint32 :: "uint32 \<Rightarrow> byte list" where
  "BigEndian_PutUint32 v =
     [ucast (drop_bit 24 v), ucast (drop_bit 16 v), ucast (drop_bit 8 v), ucast v]"

subsection \<open>parseReadSize\<close>

text \<open>The table of TLS record versions that \<open>parseReadSize\<close> walks (the constants
  \<open>tls.VersionSSL30\<close> to \<open>tls.VersionTLS13\<close> of crypto/tls), and the loop over it: a
  later match overwrites an earlier one.\<close>

definition tls_guesses :: "(uint16 \<times> string) list" where
  "tls_guesses =
     [(0x0300, ''SSL v3''), (0x0301, ''TLS v1.0''), (0x0302, ''TLS v1.1''),
      (0x0303, ''TLS v1.2''), (0x0304, ''TLS v1.3'')]"

definition versionGuess :: "uint16 \<Rightarrow> version_guess" where
  "versionGuess tlsVersion =
     fold (\<lambda>(num, text) guess. if tlsVersion = num then KnownVersion text else guess)
       tls_guesses (UnknownTLSVersion tlsVersion)"

text \<open>\<open>parseReadSize\<close>, with \<open>cxn.b.cl.cfg.maxBrokerReadBytes\<close> as its first argument.
  The slice always has length 4 at both call sites.\<close>

definition parseReadSize :: "int32 \<Rightarrow> byte list \<Rightarrow> error + int32" where
  "parseReadSize maxBrokerReadBytes sizeBuf =
     (let size = BigEndian_Uint32 sizeBuf in
      if size <s 0 then Inl (ErrInvalidNegativeSize size)
      else
        let maxSize = maxBrokerReadBytes in
        if maxSize <s size then
          if maxSize = 0x48545450 then Inl (ErrLargeSizeHTTP size maxSize)
          else
            let tlsVersion = (push_bit 8 (ucast (sizeBuf ! 1)) OR ucast (sizeBuf ! 2) :: uint16) in
            if sizeBuf ! 0 = 21 \<and> tlsVersion AND 0x0300 \<noteq> 0
            then Inl (ErrLargeSizeTLS size maxSize (versionGuess tlsVersion))
            else Inl (ErrLargeSize size maxSize)
        else Inr size)"

subsection \<open>The environment\<close>

text \<open>A SASL session as one run sees it: the results of its successive \<open>Challenge\<close>
  calls, each either an error or \<open>(done, clientWrite)\<close>.  A mechanism is known by its
  name; what its \<open>Authenticate\<close> returns is part of the world.\<close>

type_synonym session = "(error + bool \<times> byte list) list"

text \<open>Which case of the \<open>select\<close> in \<open>writeRequest\<close> fires while it waits out a throttle:
  the timer, the request context (with its \<open>ctx.Err()\<close>), the client context, or the
  connection's \<open>deadCh\<close>.\<close>

datatype wake = timer_fired | ctx_done error | client_ctx_done | cxn_dead

record ProduceResponse =
  resp_Version :: int16
  resp_ThrottleMillis :: int32
  resp_Topics :: "string list"

text \<open>A \<open>kmsg.Response\<close> interface value: the nil interface, a \<open>*kmsg.ProduceResponse\<close>
  (\<open>None\<close> is the nil pointer), or the response shell of another request (key and
  version).\<close>

datatype response =
    nil_Response
  | ProduceResponse_ptr "ProduceResponse option"
  | Response_shell int16 int16

text \<open>What a run does to the outside, in order: a call of the promise with the given
  number, a \<open>time.Sleep\<close> (in milliseconds), a dial, the closing of the socket, the start of
  the \<open>discard\<close> and \<open>handleResps\<close> goroutines, and the debug line logged before each
  reauthentication.\<close>

datatype event =
    Promise nat response "error option"
  | Sleep int
  | Dial
  | CloseConn
  | GoDiscard
  | GoHandleResps
  | LogReauthenticating

text \<open>The world: the clock (its successive readings), the socket (the bytes the peer
  sends, and the error a read returns once they run out; for each write in turn, whether
  it fails and after how many bytes), the dialer, the mechanisms, and the events so far
  (latest first).\<close>

record world =
  clock :: "nat \<Rightarrow> time"
  ticks :: nat
  inbound :: "byte list"
  read_fail :: error
  write_res :: "nat \<Rightarrow> (nat \<times> error) option"
  outbound :: "byte list list"
  dial_res :: "nat \<Rightarrow> error option"
  ndials :: nat
  auth_res :: "string \<Rightarrow> nat \<Rightarrow> error + session \<times> byte list"
  nauths :: nat
  throttle_wake :: wake
  events :: "event list"

definition time_Now :: "world \<Rightarrow> time \<times> world" where
  "time_Now w = (clock w (ticks w), w\<lparr>ticks := Suc (ticks w)\<rparr>)"

definition emit :: "event \<Rightarrow> world \<Rightarrow> world" where
  "emit e w = w\<lparr>events := e # events w\<rparr>"

text \<open>\<open>io.ReadFull(cxn.conn, buf)\<close> for a buffer of \<open>n\<close> bytes: the bytes read, and the
  error when fewer than \<open>n\<close> arrive.\<close>

definition io_ReadFull :: "nat \<Rightarrow> world \<Rightarrow> (byte list \<times> error option) \<times> world" where
  "io_ReadFull n w =
     (if n \<le> length (inbound w)
      then ((take n (inbound w), None), w\<lparr>inbound := drop n (inbound w)\<rparr>)
      else ((inbound w, Some (read_fail w)), w\<lparr>inbound := []\<rparr>))"

text \<open>\<open>cxn.conn.Write(buf)\<close>: the number of bytes written and the error.\<close>

definition conn_Write :: "byte list \<Rightarrow> world \<Rightarrow> (nat \<times> error option) \<times> world" where
  "conn_Write buf w =
     (case write_res w (length (outbound w)) of
        None \<Rightarrow> ((length buf, None), w\<lparr>outbound := outbound w @ [buf]\<rparr>)
      | Some (n, e) \<Rightarrow> ((min n (length buf), Some e), w\<lparr>outbound := outbound w @ [take n buf]\<rparr>))"

subsection \<open>Requests, the client and a connection\<close>

datatype request_type =
    produceRequest int16
  | kmsg_ProduceRequest int16 int32
  | ApiVersionsRequest
  | SASLHandshakeRequest string
  | SASLAuthenticateRequest "byte list"
  | other_request int16 bool

text \<open>A \<open>kmsg.Request\<close>: its dynamic type with the fields the code touches (the \<open>acks\<close> of
  the client's own \<open>produceRequest\<close>; \<open>Acks\<close> and \<open>TimeoutMillis\<close> of a
  \<open>kmsg.ProduceRequest\<close>; the key of any other request and whether it is a
  \<open>kmsg.TimeoutRequest\<close>) and its version.\<close>

record request =
  rtype :: request_type
  Version :: int16

definition Key :: "request \<Rightarrow> int16" where
  "Key req =
     (case rtype req of
        produceRequest _ \<Rightarrow> 0
      | kmsg_ProduceRequest _ _ \<Rightarrow> 0
      | ApiVersionsRequest \<Rightarrow> 18
      | SASLHandshakeRequest _ \<Rightarrow> 17
      | SASLAuthenticateRequest _ \<Rightarrow> 36
      | other_request k _ \<Rightarrow> k)"

text \<open>A \<open>context.Context\<close> as one dispatch sees it: \<open>ctx.Err()\<close> (\<open>Done\<close> is closed when it
  is not nil), whether it is the client's own context, and its \<open>requestId\<close> value.\<close>

record go_context =
  ctx_Err :: "error option"
  is_client_ctx :: bool
  ctx_requestId :: "string option"

record promisedReq =
  pr_ctx :: "go_context option"
  pr_req :: request
  pr_promise :: nat

record promisedResp =
  p_corrID :: int32
  p_flexibleHeader :: bool
  p_resp :: response
  p_promise :: nat
  p_bytesWritten :: nat

text \<open>The client: the configuration fields read by this file, and the codec the file
  calls (package kmsg and kbin): the constant \<open>kmsg.MaxKey\<close>, \<open>AppendRequest\<close>,
  \<open>MaxVersion\<close> by request type, \<open>IsFlexible\<close> by key and version, \<open>SkipTags\<close> with
  the reader's \<open>Complete\<close>, and
  \<open>ReadFrom\<close> for the three responses this file decodes itself (giving the fields it
  then reads).  \<open>maxVersions\<close> and \<open>minVersions\<close> are \<open>*kversion.Versions\<close>: \<open>None\<close> is the
  nil pointer, and the map gives \<open>LookupMaxKeyVersion\<close>.\<close>

record Client =
  maxVersions :: "(int16 \<Rightarrow> int16 option) option"
  minVersions :: "(int16 \<Rightarrow> int16 option) option"
  acks :: int16
  produceTimeout :: Duration
  sasls :: "string list"
  maxBrokerReadBytes :: int32
  MaxKey :: nat
  AppendRequest :: "request \<Rightarrow> int32 \<Rightarrow> byte list"
  MaxVersion :: "request_type \<Rightarrow> int16"
  IsFlexible :: "int16 \<Rightarrow> int16 \<Rightarrow> bool"
  SkipTags :: "byte list \<Rightarrow> error + byte list"
  ReadFrom_ApiVersions :: "int16 \<Rightarrow> byte list \<Rightarrow> error + (int16 \<times> int16) list"
  ReadFrom_SASLHandshake :: "int16 \<Rightarrow> byte list \<Rightarrow> error + int16 \<times> string list"
  ReadFrom_SASLAuthenticate ::
    "int16 \<Rightarrow> byte list \<Rightarrow> error + int16 \<times> string option \<times> byte list \<times> int64"

definition HasKey :: "(int16 \<Rightarrow> int16 option) \<Rightarrow> int16 \<Rightarrow> bool" where
  "HasKey vs k = (vs k \<noteq> None)"

definition LookupMaxKeyVersion :: "(int16 \<Rightarrow> int16 option) \<Rightarrow> int16 \<Rightarrow> int16 \<times> bool" where
  "LookupMaxKeyVersion vs k = (case vs k of Some v \<Rightarrow> (v, True) | None \<Rightarrow> (- 1, False))"

text \<open>Modelled from the spec: the response queue \<open>ringResp\<close> (ring.go is not among the
  sources).  A mutex-protected list with \<open>push\<close> returning \<open>(first, dead)\<close> (was the queue
  empty, is it dead) and \<open>die\<close> marking it dead.\<close>

record ringResp =
  elems :: "promisedResp list"
  ring_dead :: bool

definition ring_push :: "promisedResp \<Rightarrow> ringResp \<Rightarrow> (bool \<times> bool) \<times> ringResp" where
  "ring_push pr r =
     (if ring_dead r then ((False, True), r)
      else ((elems r = [], False), r\<lparr>elems := elems r @ [pr]\<rparr>))"

definition ring_die :: "ringResp \<Rightarrow> ringResp" where
  "ring_die r = r\<lparr>ring_dead := True\<rparr>"

text \<open>\<open>brokerCxn\<close>, without the socket (it is the world's) and the four fields kept for
  the reaper only.\<close>

record brokerCxn =
  mechanism :: "string option"
  expiry :: time
  throttleUntil :: int64
  corrID :: int32
  resps :: ringResp
  dead :: int32
  AuthRequestId :: string

text \<open>The connection that \<open>loadConnection\<close> allocates: every field has Go's zero value.\<close>

definition new_brokerCxn :: brokerCxn where
  "new_brokerCxn =
     \<lparr>mechanism = None, expiry = 0, throttleUntil = 0, corrID = 0,
      resps = \<lparr>elems = [], ring_dead = False\<rparr>, dead = 0, AuthRequestId = []\<rparr>"

subsection \<open>Reading from a connection\<close>

text \<open>\<open>readConn\<close>: four size bytes, \<open>parseReadSize\<close>, then a buffer of that size.  It
  returns \<open>(nread, buf, err)\<close>.  Only the \<open>readDone\<close> case of its \<open>select\<close> is modelled: the
  two cancellation cases replace one non-nil error by another, and the world's
  \<open>read_fail\<close> is any error already.\<close>

definition readConn :: "Client \<Rightarrow> world \<Rightarrow> (nat \<times> byte list \<times> error option) \<times> world" where
  "readConn cl w =
     (case io_ReadFull 4 w of
        ((sizeBuf, Some err), w1) \<Rightarrow> ((length sizeBuf, [], Some err), w1)
      | ((sizeBuf, None), w1) \<Rightarrow>
          (case parseReadSize (maxBrokerReadBytes cl) sizeBuf of
             Inl err \<Rightarrow> ((4, [], Some err), w1)
           | Inr size' \<Rightarrow>
               (case io_ReadFull (unat size') w1 of
                  ((buf, err), w2) \<Rightarrow> ((4 + length buf, buf, err), w2))))"

text \<open>\<open>readResponse\<close>, returning the response body or the error.\<close>

definition readResponse ::
    "Client \<Rightarrow> int32 \<Rightarrow> bool \<Rightarrow> world \<Rightarrow> (error + byte list) \<times> world" where
  "readResponse cl corrID' flexibleHeader w =
     (case readConn cl w of
        ((bytesRead, buf, Some readErr), w1) \<Rightarrow> (Inl readErr, w1)
      | ((bytesRead, buf, None), w1) \<Rightarrow>
          if length buf < 4 then (Inl ErrNotEnoughData, w1)
          else
            let gotID = BigEndian_Uint32 buf in
            if gotID \<noteq> corrID' then (Inl errCorrelationIDMismatch, w1)
            else if flexibleHeader then (SkipTags cl (drop 4 buf), w1)
            else (Inr (drop 4 buf), w1))"

subsection \<open>Writing to a connection\<close>

text \<open>\<open>writeConn\<close>: \<open>(bytesWritten, writeErr)\<close> of the one \<open>Write\<close>; as in \<open>readConn\<close>, only
  the \<open>writeDone\<close> case of the \<open>select\<close> is modelled.\<close>

definition writeConn :: "byte list \<Rightarrow> world \<Rightarrow> (nat \<times> error option) \<times> world" where
  "writeConn buf w = conn_Write buf w"

text \<open>\<open>time.Unix(0, n)\<close> on the scale of \<open>time\<close>: the Unix epoch is 62135596800 seconds
  after Go's zero time.\<close>

definition time_Unix_nano :: "int64 \<Rightarrow> time" where
  "time_Unix_nano n = 62135596800 * 1000000000 + sint n"

definition maybeUpdateCtxErr :: "go_context \<Rightarrow> error \<Rightarrow> error" where
  "maybeUpdateCtxErr reqCtx err = (if is_client_ctx reqCtx then ErrClientClosed else err)"

text \<open>\<open>writeRequest\<close>, returning \<open>(corrID, bytesWritten, writeErr)\<close> and the connection.
  A throttled request with a context waits; the wait ends as the world's \<open>throttle_wake\<close>
  says.\<close>

definition throttle_wait :: "go_context \<Rightarrow> wake \<Rightarrow> error option" where
  "throttle_wait ctx wk =
     (case wk of
        timer_fired \<Rightarrow> None
      | ctx_done e \<Rightarrow> Some (maybeUpdateCtxErr ctx e)
      | client_ctx_done \<Rightarrow> Some ErrClientClosed
      | cxn_dead \<Rightarrow> Some errChosenBrokerDead)"

definition writeRequest_send ::
    "Client \<Rightarrow> request \<Rightarrow> brokerCxn \<Rightarrow> world \<Rightarrow>
       (int32 \<times> nat \<times> error option) \<times> brokerCxn \<times> world" where
  "writeRequest_send cl req cxn w =
     (let buf = AppendRequest cl req (corrID cxn) in
      case writeConn buf w of
        ((bytesWritten, Some writeErr), w1) \<Rightarrow> ((0, bytesWritten, Some writeErr), cxn, w1)
      | ((bytesWritten, None), w1) \<Rightarrow>
          ((corrID cxn, bytesWritten, None), cxn\<lparr>corrID := corrID cxn + 1\<rparr>, w1))"

definition writeRequest ::
    "Client \<Rightarrow> go_context option \<Rightarrow> request \<Rightarrow> brokerCxn \<Rightarrow> world \<Rightarrow>
       (int32 \<times> nat \<times> error option) \<times> brokerCxn \<times> world" where
  "writeRequest cl ctx req cxn w =
     (case ctx of
        None \<Rightarrow> writeRequest_send cl req cxn w
      | Some c \<Rightarrow>
          (case time_Now w of
             (now, w1) \<Rightarrow>
               if 0 < time_Unix_nano (throttleUntil cxn) - now
               then
                 (case throttle_wait c (throttle_wake w1) of
                    Some writeErr \<Rightarrow> ((0, 0, Some writeErr), cxn, w1)
                  | None \<Rightarrow> writeRequest_send cl req cxn w1)
               else writeRequest_send cl req cxn w1))"

subsection \<open>Panics\<close>

text \<open>The result of a function that can panic (an index out of range, a nil pointer), or
  that asks a SASL session for more answers than the world holds (\<open>Stuck\<close>: the world does
  not say how the run goes on).\<close>

datatype 'a exec = Done 'a | Panic string | Stuck

subsection \<open>The broker\<close>

text \<open>\<open>broker\<close>: the versions slot (an \<open>atomic.Value\<close>; \<open>None\<close> when nothing is stored) and
  the five connections (\<open>None\<close> is the nil pointer).  \<open>pcxn\<close> is the pointer to one of the
  five fields that \<open>loadConnection\<close> works with.\<close>

record broker =
  versions :: "int16 list option"
  cxnNormal :: "brokerCxn option"
  cxnProduce :: "brokerCxn option"
  cxnFetch :: "brokerCxn option"
  cxnGroup :: "brokerCxn option"
  cxnSlow :: "brokerCxn option"

datatype pcxn = to_cxnNormal | to_cxnProduce | to_cxnFetch | to_cxnGroup | to_cxnSlow

fun deref :: "pcxn \<Rightarrow> broker \<Rightarrow> brokerCxn option" where
  "deref to_cxnNormal b = cxnNormal b"
| "deref to_cxnProduce b = cxnProduce b"
| "deref to_cxnFetch b = cxnFetch b"
| "deref to_cxnGroup b = cxnGroup b"
| "deref to_cxnSlow b = cxnSlow b"

fun assign :: "pcxn \<Rightarrow> brokerCxn option \<Rightarrow> broker \<Rightarrow> broker" where
  "assign to_cxnNormal c b = b\<lparr>cxnNormal := c\<rparr>"
| "assign to_cxnProduce c b = b\<lparr>cxnProduce := c\<rparr>"
| "assign to_cxnFetch c b = b\<lparr>cxnFetch := c\<rparr>"
| "assign to_cxnGroup c b = b\<lparr>cxnGroup := c\<rparr>"
| "assign to_cxnSlow c b = b\<lparr>cxnSlow := c\<rparr>"

text \<open>\<open>newBrokerVersions\<close>: an array of \<open>kmsg.MaxKey + 1\<close> entries, all -1; and
  \<open>v.versions[i]\<close> for a loaded \<open>v\<close>, which panics on a nil \<open>v\<close> and on an index outside
  the array.\<close>

definition newBrokerVersions :: "Client \<Rightarrow> int16 list" where
  "newBrokerVersions cl = replicate (MaxKey cl + 1) (- 1)"

definition versions_index :: "int16 list option \<Rightarrow> int \<Rightarrow> int16 exec" where
  "versions_index v i =
     (case v of
        None \<Rightarrow> Panic ''invalid memory address or nil pointer dereference''
      | Some vs \<Rightarrow>
          if 0 \<le> i \<and> i < int (length vs) then Done (vs ! nat i)
          else Panic ''index out of range'')"

text \<open>\<open>die\<close>: the swap sets \<open>dead\<close> to 1; unless it was 1 already the socket is closed
  (\<open>closeConn\<close>) and the response queue is killed.\<close>

definition die :: "brokerCxn \<Rightarrow> world \<Rightarrow> brokerCxn \<times> world" where
  "die cxn w =
     (if dead cxn = 1 then (cxn, w)
      else (cxn\<lparr>dead := 1, resps := ring_die (resps cxn)\<rparr>, emit CloseConn w))"

subsection \<open>requestAPIVersions\<close>

text \<open>The table built from the advertised keys: entries with a key outside
  \<open>0..kmsg.MaxKey\<close> are skipped.\<close>

definition versions_of_ApiKeys :: "Client \<Rightarrow> (int16 \<times> int16) list \<Rightarrow> int16 list" where
  "versions_of_ApiKeys cl ApiKeys =
     fold (\<lambda>(ApiKey, max_v) v.
             if int (MaxKey cl) < sint ApiKey \<or> sint ApiKey < 0 then v
             else v[nat (sint ApiKey) := max_v])
       ApiKeys (newBrokerVersions cl)"

text \<open>The end of \<open>requestAPIVersions\<close>, from \<open>resp.ReadFrom(rawResp)\<close> on, for a response
  decoded at version \<open>respVersion\<close>.\<close>

definition storeApiVersions ::
    "Client \<Rightarrow> int16 \<Rightarrow> byte list \<Rightarrow> broker \<Rightarrow> error option \<times> broker" where
  "storeApiVersions cl respVersion rawResp b =
     (case ReadFrom_ApiVersions cl respVersion rawResp of
        Inl err \<Rightarrow> (Some (ErrReadApiVersions err), b)
      | Inr ApiKeys \<Rightarrow>
          if length ApiKeys = 0 then (Some ErrNoApiKeys, b)
          else (None, b\<lparr>versions := Some (versions_of_ApiKeys cl ApiKeys)\<rparr>))"

text \<open>\<open>requestAPIVersions\<close> from its label \<open>start\<close>, with the current \<open>maxVersion\<close>.  The
  \<open>goto start\<close> is the recursive call; it is taken with \<open>maxVersion\<close> 0 and only from a
  non-zero \<open>maxVersion\<close>.\<close>

function requestAPIVersions_start ::
    "Client \<Rightarrow> int16 \<Rightarrow> brokerCxn \<Rightarrow> broker \<Rightarrow> world \<Rightarrow>
       error option \<times> brokerCxn \<times> broker \<times> world" where
  "requestAPIVersions_start cl maxVersion cxn b w =
     (let req = \<lparr>rtype = ApiVersionsRequest, Version = maxVersion\<rparr> in
      case writeRequest cl None req cxn w of
        ((corrID', bytesWritten, Some writeErr), cxn1, w1) \<Rightarrow> (Some writeErr, cxn1, b, w1)
      | ((corrID', bytesWritten, None), cxn1, w1) \<Rightarrow>
          (case readResponse cl corrID' False w1 of
             (Inl err, w2) \<Rightarrow> (Some err, cxn1, b, w2)
           | (Inr rawResp, w2) \<Rightarrow>
               if length rawResp < 2
               then (Some (ErrShortApiVersions (length rawResp)), cxn1, b, w2)
               else if rawResp ! 1 = 35 then
                 if maxVersion = 0 then (Some ErrUnsupportedVersionV0, cxn1, b, w2)
                 else if rawResp = [0x00, 0x23, 0x00, 0x00, 0x00, 0x00]
                       \<or> rawResp = [0x00, 0x23, 0x00, 0x00, 0x00, 0x00, 0x00, 0x00, 0x00, 0x00]
                 then requestAPIVersions_start cl 0 cxn1 b w2
                 else (case storeApiVersions cl 0 rawResp b of (err, b1) \<Rightarrow> (err, cxn1, b1, w2))
               else (case storeApiVersions cl maxVersion rawResp b of
                       (err, b1) \<Rightarrow> (err, cxn1, b1, w2))))"
  by pat_completeness auto
termination
  by (relation "measure (\<lambda>(cl, maxVersion, cxn, b, w). if maxVersion = 0 then 0 else 1)") auto

definition requestAPIVersions ::
    "Client \<Rightarrow> brokerCxn \<Rightarrow> broker \<Rightarrow> world \<Rightarrow> error option \<times> brokerCxn \<times> broker \<times> world" where
  "requestAPIVersions cl cxn b w =
     (let maxVersion =
            (case maxVersions cl of
               None \<Rightarrow> 3
             | Some vs \<Rightarrow>
                 (case LookupMaxKeyVersion vs 18 of
                    (userMax, exists) \<Rightarrow> if exists \<and> 0 \<le>s userMax then userMax else 3))
      in requestAPIVersions_start cl maxVersion cxn b w)"

subsection \<open>SASL\<close>

text \<open>\<open>Time.Sub\<close> saturates at the range of a \<open>Duration\<close>; \<open>Duration.Milliseconds\<close> divides
  by a million, truncating towards zero.\<close>

definition Time_Sub :: "time \<Rightarrow> time \<Rightarrow> Duration" where
  "Time_Sub t u =
     (let d = t - u in
      if 2 ^ 63 - 1 < d then word_of_int (2 ^ 63 - 1)
      else if d < - (2 ^ 63) then word_of_int (- (2 ^ 63))
      else word_of_int d)"

definition quot :: "int \<Rightarrow> int \<Rightarrow> int" where
  "quot a b = sgn a * sgn b * (\<bar>a\<bar> div \<bar>b\<bar>)"

definition Milliseconds :: "Duration \<Rightarrow> int64" where
  "Milliseconds d = word_of_int (quot (sint d) 1000000)"

text \<open>\<open>int64(float64(x) * 1.1)\<close> in IEEE 754 double precision, computed on integers.  A
  double holds 53 significant bits and rounds to nearest, ties to even
  (\<open>round_to_53_bits\<close>, on a natural number).  \<open>float64(x)\<close> is \<open>x\<close> rounded so; the constant
  1.1 is the double \<open>4953959590107546 / 2^52\<close>; their product is rounded again, and the
  conversion to \<open>int64\<close> drops the fraction.  The values are far from the subnormal and
  overflow ranges of a double, and for \<open>\<bar>x\<bar> < 2^62\<close> the result fits an \<open>int64\<close>.\<close>

fun bitlen :: "nat \<Rightarrow> nat" where
  "bitlen n = (if n = 0 then 0 else Suc (bitlen (n div 2)))"

definition round_to_53_bits :: "nat \<Rightarrow> nat" where
  "round_to_53_bits m =
     (if bitlen m \<le> 53 then m
      else
        let k = bitlen m - 53; q = m div 2 ^ k; r = m mod 2 ^ k; half = 2 ^ (k - 1) in
        (if half < r \<or> (r = half \<and> odd q) then q + 1 else q) * 2 ^ k)"

definition float64_of_int :: "int \<Rightarrow> int" where
  "float64_of_int x = sgn x * int (round_to_53_bits (nat \<bar>x\<bar>))"

definition times_1_1_to_int64 :: "int64 \<Rightarrow> int64" where
  "times_1_1_to_int64 x =
     (let f = float64_of_int (sint x) in
      word_of_int (sgn f * int (round_to_53_bits (nat \<bar>f\<bar> * 4953959590107546) div 2 ^ 52)))"

text \<open>The end of \<open>doSasl\<close>, after its loop: the expiry for a session with a lifetime.  The
  clock is read twice, by \<open>time.Since(prereq)\<close> and by \<open>time.Now()\<close>.\<close>

definition doSasl_lifetime :: "time \<Rightarrow> int64 \<Rightarrow> brokerCxn \<Rightarrow> world \<Rightarrow> brokerCxn \<times> world" where
  "doSasl_lifetime prereq lifetimeMillis cxn w =
     (if 0 <s lifetimeMillis then
        case time_Now w of
          (t, w1) \<Rightarrow>
            let latency = times_1_1_to_int64 (Milliseconds (Time_Sub t prereq));
                latency = (if latency <s 2500 then 2500 else latency);
                useLifetime = lifetimeMillis - latency
            in case time_Now w1 of
                 (now, w2) \<Rightarrow>
                   let cxn' = cxn\<lparr>expiry := now + sint (useLifetime * 1000000)\<rparr> in
                   if useLifetime <s 0 then (cxn', emit (Sleep 100) w2) else (cxn', w2)
      else (cxn, w))"

text \<open>One turn of the loop of \<open>doSasl\<close> up to \<open>clientWrite = nil\<close>: the write and, unless
  \<open>done\<close>, the read.  It returns the error or the challenge, with the new \<open>prereq\<close> and
  \<open>lifetimeMillis\<close>.\<close>

definition doSasl_turn ::
    "Client \<Rightarrow> broker \<Rightarrow> bool \<Rightarrow> bool \<Rightarrow> byte list \<Rightarrow> time \<Rightarrow> int64 \<Rightarrow> brokerCxn \<Rightarrow> world \<Rightarrow>
       ((error + byte list) \<times> time \<times> int64 \<times> brokerCxn \<times> world) exec" where
  "doSasl_turn cl b authenticate done clientWrite prereq lifetimeMillis cxn w =
     (if \<not> authenticate then
        let buf = BigEndian_PutUint32 (of_nat (length clientWrite)) @ clientWrite in
        case writeConn buf w of
          ((n, Some err), w1) \<Rightarrow> Done (Inl err, prereq, lifetimeMillis, cxn, w1)
        | ((n, None), w1) \<Rightarrow>
            if \<not> done then
              (case readConn cl w1 of
                 ((nread, challenge, Some err), w2) \<Rightarrow>
                   Done (Inl err, prereq, lifetimeMillis, cxn, w2)
               | ((nread, challenge, None), w2) \<Rightarrow>
                   Done (Inr challenge, prereq, lifetimeMillis, cxn, w2))
            else Done (Inr [], prereq, lifetimeMillis, cxn, w1)
      else
        case versions_index (versions b) 36 of
          Panic s \<Rightarrow> Panic s
        | Stuck \<Rightarrow> Stuck
        | Done v36 \<Rightarrow>
            let req = \<lparr>rtype = SASLAuthenticateRequest clientWrite, Version = v36\<rparr> in
            case time_Now w of
              (prereq', w1) \<Rightarrow>
                (case writeRequest cl None req cxn w1 of
                   ((corrID', bytesWritten, Some writeErr), cxn1, w2) \<Rightarrow>
                     Done (Inl writeErr, prereq', lifetimeMillis, cxn1, w2)
                 | ((corrID', bytesWritten, None), cxn1, w2) \<Rightarrow>
                     if \<not> done then
                       (case readResponse cl corrID' (IsFlexible cl 36 v36) w2 of
                          (Inl err, w3) \<Rightarrow> Done (Inl err, prereq', lifetimeMillis, cxn1, w3)
                        | (Inr rawResp, w3) \<Rightarrow>
                            (case ReadFrom_SASLAuthenticate cl v36 rawResp of
                               Inl err \<Rightarrow> Done (Inl err, prereq', lifetimeMillis, cxn1, w3)
                             | Inr (ErrorCode, ErrorMessage, SASLAuthBytes, SessionLifetimeMillis) \<Rightarrow>
                                 if ErrorCode \<noteq> 0 then
                                   (case ErrorMessage of
                                      Some msg \<Rightarrow>
                                        Done (Inl (ErrKafkaMsg msg (ErrKafka ErrorCode)),
                                              prereq', lifetimeMillis, cxn1, w3)
                                    | None \<Rightarrow>
                                        Done (Inl (ErrKafka ErrorCode),
                                              prereq', lifetimeMillis, cxn1, w3))
                                 else Done (Inr SASLAuthBytes, prereq', SessionLifetimeMillis,
                                            cxn1, w3)))
                     else Done (Inr [], prereq', lifetimeMillis, cxn1, w2)))"

text \<open>The loop of \<open>doSasl\<close>: \<open>for done := false; !done || len(clientWrite) > 0;\<close>.  The
  session is the list of the answers \<open>Challenge\<close> still has to give.  The loop returns
  the error, or \<open>prereq\<close> and \<open>lifetimeMillis\<close> as they are when it ends.\<close>

function doSasl_loop ::
    "Client \<Rightarrow> broker \<Rightarrow> bool \<Rightarrow> bool \<Rightarrow> byte list \<Rightarrow> session \<Rightarrow> time \<Rightarrow> int64 \<Rightarrow>
       brokerCxn \<Rightarrow> world \<Rightarrow> ((error + time \<times> int64) \<times> brokerCxn \<times> world) exec" where
  "doSasl_loop cl b authenticate done clientWrite session prereq lifetimeMillis cxn w =
     (if \<not> (\<not> done \<or> 0 < length clientWrite) then Done (Inr (prereq, lifetimeMillis), cxn, w)
      else
        case doSasl_turn cl b authenticate done clientWrite prereq lifetimeMillis cxn w of
          Panic s \<Rightarrow> Panic s
        | Stuck \<Rightarrow> Stuck
        | Done (Inl err, prereq1, lifetime1, cxn1, w1) \<Rightarrow> Done (Inl err, cxn1, w1)
        | Done (Inr challenge, prereq1, lifetime1, cxn1, w1) \<Rightarrow>
            if \<not> done then
              (case session of
                 [] \<Rightarrow> Stuck
               | Inl err # session' \<Rightarrow> Done (Inl err, cxn1, w1)
               | Inr (done', clientWrite') # session' \<Rightarrow>
                   doSasl_loop cl b authenticate done' clientWrite' session' prereq1 lifetime1
                     cxn1 w1)
            else doSasl_loop cl b authenticate done [] session prereq1 lifetime1 cxn1 w1)"
  by pat_completeness auto
termination
  by (relation "measure (\<lambda>(cl, b, authenticate, done, clientWrite, session, rest).
        2 * length session + (if done then (if clientWrite = [] then 0 else 1) else 2))") auto

text \<open>\<open>doSasl\<close>.  A nil \<open>cxn.mechanism\<close> would panic on \<open>Authenticate\<close>.\<close>

definition doSasl ::
    "Client \<Rightarrow> bool \<Rightarrow> string \<Rightarrow> brokerCxn \<Rightarrow> broker \<Rightarrow> world \<Rightarrow>
       (error option \<times> brokerCxn \<times> world) exec" where
  "doSasl cl authenticate requestId cxn b w =
     (case mechanism cxn of
        None \<Rightarrow> Panic ''invalid memory address or nil pointer dereference''
      | Some name \<Rightarrow>
          let w0 = w\<lparr>nauths := Suc (nauths w)\<rparr> in
          case auth_res w name (nauths w) of
            Inl err \<Rightarrow> Done (Some err, cxn, w0)
          | Inr (session, clientWrite) \<Rightarrow>
              if length clientWrite = 0 then Done (Some (ErrUnexpectedServerWrite name), cxn, w0)
              else
                let cxn0 = cxn\<lparr>AuthRequestId := requestId\<rparr> in
                case time_Now w0 of
                  (prereq, w1) \<Rightarrow>
                    (case doSasl_loop cl b authenticate False clientWrite session prereq 0 cxn0 w1 of
                       Panic s \<Rightarrow> Panic s
                     | Stuck \<Rightarrow> Stuck
                     | Done (Inl err, cxn1, w2) \<Rightarrow> Done (Some err, cxn1, w2)
                     | Done (Inr (prereq', lifetimeMillis), cxn1, w2) \<Rightarrow>
                         (case doSasl_lifetime prereq' lifetimeMillis cxn1 w2 of
                            (cxn2, w3) \<Rightarrow> Done (None, cxn2, w3))))"

text \<open>\<open>sasl\<close> from its label \<open>start\<close>, with the current \<open>mechanism\<close> and \<open>retried\<close>.  A
  non-zero error code is an error of package kerr; 33 is \<open>UnsupportedSaslMechanism\<close>.\<close>

function sasl_start ::
    "Client \<Rightarrow> string \<Rightarrow> bool \<Rightarrow> string \<Rightarrow> brokerCxn \<Rightarrow> broker \<Rightarrow> world \<Rightarrow>
       (error option \<times> brokerCxn \<times> world) exec" where
  "sasl_start cl mech retried requestId cxn b w =
     (if mech \<noteq> ''GSSAPI'' then
        case versions_index (versions b) 17 of
          Panic s \<Rightarrow> Panic s
        | Stuck \<Rightarrow> Stuck
        | Done v17 \<Rightarrow>
            if 0 \<le>s v17 then
              let req = \<lparr>rtype = SASLHandshakeRequest mech, Version = v17\<rparr> in
              case writeRequest cl None req cxn w of
                ((corrID', bytesWritten, Some writeErr), cxn1, w1) \<Rightarrow> Done (Some writeErr, cxn1, w1)
              | ((corrID', bytesWritten, None), cxn1, w1) \<Rightarrow>
                  (case readResponse cl corrID' (IsFlexible cl 17 v17) w1 of
                     (Inl err, w2) \<Rightarrow> Done (Some err, cxn1, w2)
                   | (Inr rawResp, w2) \<Rightarrow>
                       (case ReadFrom_SASLHandshake cl v17 rawResp of
                          Inl err \<Rightarrow> Done (Some err, cxn1, w2)
                        | Inr (ErrorCode, SupportedMechanisms) \<Rightarrow>
                            if ErrorCode \<noteq> 0 then
                              if \<not> retried \<and> ErrorCode = 33 then
                                (case find (\<lambda>ours. ours \<in> set SupportedMechanisms) (tl (sasls cl)) of
                                   Some ours \<Rightarrow> sasl_start cl ours True requestId cxn1 b w2
                                 | None \<Rightarrow> Done (Some (ErrKafka ErrorCode), cxn1, w2))
                              else Done (Some (ErrKafka ErrorCode), cxn1, w2)
                            else doSasl cl (v17 = 1) requestId (cxn1\<lparr>mechanism := Some mech\<rparr>) b w2))
            else doSasl cl False requestId (cxn\<lparr>mechanism := Some mech\<rparr>) b w
      else doSasl cl False requestId (cxn\<lparr>mechanism := Some mech\<rparr>) b w)"
  by pat_completeness auto
termination
  by (relation "measure (\<lambda>(cl, mech, retried, rest). if retried then 0 else 1)") auto

definition sasl ::
    "Client \<Rightarrow> string \<Rightarrow> brokerCxn \<Rightarrow> broker \<Rightarrow> world \<Rightarrow> (error option \<times> brokerCxn \<times> world) exec" where
  "sasl cl requestId cxn b w =
     (if length (sasls cl) = 0 then Done (None, cxn, w)
      else sasl_start cl (hd (sasls cl)) False requestId cxn b w)"

subsection \<open>Opening a connection\<close>

text \<open>\<open>connect\<close>: one dial; its error is wrapped as \<open>unable to dial\<close>.\<close>

definition connect :: "world \<Rightarrow> error option \<times> world" where
  "connect w =
     (let w1 = emit Dial (w\<lparr>ndials := Suc (ndials w)\<rparr>) in
      case dial_res w (ndials w) of
        Some err \<Rightarrow> (Some (ErrUnableToDial err), w1)
      | None \<Rightarrow> (None, w1))"

text \<open>\<open>init\<close>.\<close>

definition init ::
    "Client \<Rightarrow> bool \<Rightarrow> string \<Rightarrow> brokerCxn \<Rightarrow> broker \<Rightarrow> world \<Rightarrow>
       (error option \<times> brokerCxn \<times> broker \<times> world) exec" where
  "init cl isProduceCxn requestId cxn b w =
     (let hasVersions = (versions b \<noteq> None);
          loaded =
            (if \<not> hasVersions then
               if (case maxVersions cl of None \<Rightarrow> True | Some vs \<Rightarrow> HasKey vs 18)
               then requestAPIVersions cl cxn b w
               else (None, cxn, b\<lparr>versions := Some (newBrokerVersions cl)\<rparr>, w)
             else (None, cxn, b, w))
      in case loaded of
           (Some err, cxn1, b1, w1) \<Rightarrow> Done (Some err, cxn1, b1, w1)
         | (None, cxn1, b1, w1) \<Rightarrow>
             (case sasl cl requestId cxn1 b1 w1 of
                Panic s \<Rightarrow> Panic s
              | Stuck \<Rightarrow> Stuck
              | Done (Some err, cxn2, w2) \<Rightarrow> Done (Some err, cxn2, b1, w2)
              | Done (None, cxn2, w2) \<Rightarrow>
                  if isProduceCxn \<and> acks cl = 0 then Done (None, cxn2, b1, emit GoDiscard w2)
                  else Done (None, cxn2, b1, w2)))"

text \<open>\<open>loadConnection\<close>, returning the error or the pointer to the connection's field.
  Whether the request is a \<open>kmsg.TimeoutRequest\<close> matters for the keys other than 0, 1,
  11 and 14 only.\<close>

definition isTimeoutRequest :: "request \<Rightarrow> bool" where
  "isTimeoutRequest req = (case rtype req of other_request k t \<Rightarrow> t | _ \<Rightarrow> False)"

definition route :: "request \<Rightarrow> pcxn \<times> bool" where
  "route req =
     (let reqKey = Key req in
      if reqKey = 0 then (to_cxnProduce, True)
      else if reqKey = 1 then (to_cxnFetch, False)
      else if reqKey = 11 \<or> reqKey = 14 then (to_cxnGroup, False)
      else if isTimeoutRequest req then (to_cxnSlow, False)
      else (to_cxnNormal, False))"

definition alive :: "brokerCxn option \<Rightarrow> bool" where
  "alive c = (case c of None \<Rightarrow> False | Some cxn \<Rightarrow> dead cxn = 0)"

definition loadConnection ::
    "Client \<Rightarrow> string \<Rightarrow> request \<Rightarrow> broker \<Rightarrow> world \<Rightarrow> ((error + pcxn) \<times> broker \<times> world) exec" where
  "loadConnection cl requestId req b w =
     (case route req of
        (pcxn, isProduceCxn) \<Rightarrow>
          if alive (deref pcxn b) then Done (Inr pcxn, b, w)
          else
            case connect w of
              (Some err, w1) \<Rightarrow> Done (Inl err, b, w1)
            | (None, w1) \<Rightarrow>
                (case init cl isProduceCxn requestId new_brokerCxn b w1 of
                   Panic s \<Rightarrow> Panic s
                 | Stuck \<Rightarrow> Stuck
                 | Done (Some err, cxn, b1, w2) \<Rightarrow> Done (Inl err, b1, emit CloseConn w2)
                 | Done (None, cxn, b1, w2) \<Rightarrow> Done (Inr pcxn, assign pcxn (Some cxn) b1, w2)))"

subsection \<open>handleReq\<close>

text \<open>The checks of \<open>handleReq\<close> between \<open>loadVersions\<close> and \<open>SetVersion\<close>: the error with
  which the promise is failed, or the version chosen.  \<open>v.len()\<close> is \<open>kmsg.MaxKey + 1\<close>,
  also for a nil \<open>v\<close>.\<close>

definition useVersion :: "Client \<Rightarrow> int16 list option \<Rightarrow> request \<Rightarrow> int16 \<Rightarrow> (error + int16) exec" where
  "useVersion cl v req ourMax0 =
     (let ourMax =
            (case maxVersions cl of
               None \<Rightarrow> ourMax0
             | Some vs \<Rightarrow>
                 (case LookupMaxKeyVersion vs (Key req) of
                    (userMax, exists) \<Rightarrow> if userMax <s ourMax0 then userMax else ourMax0))
      in case versions_index v (sint (Key req)) of
           Panic s \<Rightarrow> Panic s
         | Stuck \<Rightarrow> Stuck
         | Done brokerMax \<Rightarrow>
             let version = (if 0 \<le>s brokerMax \<and> brokerMax <s ourMax then brokerMax else ourMax) in
             case minVersions cl of
               None \<Rightarrow> Done (Inr version)
             | Some vs \<Rightarrow>
                 (case LookupMaxKeyVersion vs (Key req) of
                    (minVersion, minVersionExists) \<Rightarrow>
                      if minVersionExists \<and> version <s minVersion then Done (Inl errBrokerTooOld)
                      else Done (Inr version)))"

definition checkVersion :: "Client \<Rightarrow> int16 list option \<Rightarrow> request \<Rightarrow> (error + int16) exec" where
  "checkVersion cl v req =
     (if int (MaxKey cl) + 1 < sint (Key req)
         \<or> (case maxVersions cl of None \<Rightarrow> False | Some vs \<Rightarrow> \<not> HasKey vs (Key req))
      then Done (Inl errUnknownRequestKey)
      else
        case versions_index v 0 of
          Panic s \<Rightarrow> Panic s
        | Stuck \<Rightarrow> Stuck
        | Done v0 \<Rightarrow>
            if 0 \<le>s v0 then
              (case versions_index v (sint (Key req)) of
                 Panic s \<Rightarrow> Panic s
               | Stuck \<Rightarrow> Stuck
               | Done vk \<Rightarrow>
                   if vk <s 0 then Done (Inl errBrokerTooOld)
                   else useVersion cl v req (MaxVersion cl (rtype req)))
            else useVersion cl v req (MaxVersion cl (rtype req)))"

text \<open>The reauthentication loop of \<open>handleReq\<close>, with its counter \<open>reauthentications\<close>.  It
  returns whether \<open>handleReq\<close> goes on (\<open>True\<close>) or has returned from inside the loop.\<close>

function reauthenticate ::
    "Client \<Rightarrow> broker \<Rightarrow> promisedReq \<Rightarrow> string \<Rightarrow> nat \<Rightarrow> brokerCxn \<Rightarrow> world \<Rightarrow>
       (bool \<times> brokerCxn \<times> world) exec" where
  "reauthenticate cl b pr requestId reauthentications cxn w =
     (if expiry cxn = 0 then Done (True, cxn, w)
      else
        case time_Now w of
          (now, w1) \<Rightarrow>
            if \<not> expiry cxn < now then Done (True, cxn, w1)
            else if 15 < reauthentications then
              (case die cxn (emit (Promise (pr_promise pr) nil_Response (Some errSaslReauthLoop)) w1) of
                 (cxn1, w2) \<Rightarrow> Done (False, cxn1, w2))
            else
              case sasl cl requestId cxn b (emit LogReauthenticating w1) of
                Panic s \<Rightarrow> Panic s
              | Stuck \<Rightarrow> Stuck
              | Done (Some err, cxn1, w2) \<Rightarrow>
                  (case die cxn1 w2 of
                     (cxn2, w3) \<Rightarrow>
                       Done (False, cxn2, emit (Promise (pr_promise pr) nil_Response (Some err)) w3))
              | Done (None, cxn1, w2) \<Rightarrow>
                  reauthenticate cl b pr requestId (Suc reauthentications) cxn1 w2)"
  by pat_completeness auto
termination
  by (relation "measure (\<lambda>(cl, b, pr, requestId, reauthentications, rest). 16 - reauthentications)")
     auto

text \<open>Modelled from the spec: \<open>kmsg.NewPtrProduceResponse\<close> and \<open>ResponseKind\<close> (the
  generated message code is not among the sources) allocate an empty response shell;
  \<open>ResponseKind\<close> gives it the request's version.\<close>

definition NewPtrProduceResponse :: ProduceResponse where
  "NewPtrProduceResponse = \<lparr>resp_Version = 0, resp_ThrottleMillis = 0, resp_Topics = []\<rparr>"

definition ResponseKind :: "request \<Rightarrow> response" where
  "ResponseKind req =
     (if Key req = 0
      then ProduceResponse_ptr (Some (NewPtrProduceResponse\<lparr>resp_Version := Version req\<rparr>))
      else Response_shell (Key req) (Version req))"

text \<open>The type switch of \<open>handleReq\<close>: the request as it is written, \<open>isNoResp\<close> and
  \<open>noResp\<close>.\<close>

definition produceSwitch ::
    "Client \<Rightarrow> request \<Rightarrow> request \<times> bool \<times> ProduceResponse option" where
  "produceSwitch cl req =
     (case rtype req of
        produceRequest r_acks \<Rightarrow> (req, r_acks = 0, None)
      | kmsg_ProduceRequest r_Acks r_TimeoutMillis \<Rightarrow>
          (let r_Acks' = acks cl;
               r_TimeoutMillis' =
                 (if r_Acks' = 0 then ucast (Milliseconds (produceTimeout cl)) else r_TimeoutMillis);
               noResp = NewPtrProduceResponse\<lparr>resp_Version := Version req\<rparr>
           in (req\<lparr>rtype := kmsg_ProduceRequest r_Acks' r_TimeoutMillis'\<rparr>, r_Acks' = 0, Some noResp))
      | _ \<Rightarrow> (req, False, None))"

text \<open>\<open>waitResp\<close> of a connection.\<close>

definition waitResp :: "promisedResp \<Rightarrow> brokerCxn \<Rightarrow> world \<Rightarrow> brokerCxn \<times> world" where
  "waitResp pr cxn w =
     (case ring_push pr (resps cxn) of
        ((first, dead'), r) \<Rightarrow>
          let cxn1 = cxn\<lparr>resps := r\<rparr> in
          if first then (cxn1, emit GoHandleResps w)
          else if dead' then
            (cxn1, emit (Promise (p_promise pr) nil_Response (Some errChosenBrokerDead)) w)
          else (cxn1, w))"

text \<open>\<open>handleReq\<close> from the type switch to its end.\<close>

definition issue :: "Client \<Rightarrow> promisedReq \<Rightarrow> request \<Rightarrow> brokerCxn \<Rightarrow> world \<Rightarrow> brokerCxn \<times> world" where
  "issue cl pr req cxn w =
     (case produceSwitch cl req of
        (req1, isNoResp, noResp) \<Rightarrow>
          (case writeRequest cl (pr_ctx pr) req1 cxn w of
             ((corrID', bytesWritten, Some writeErr), cxn1, w1) \<Rightarrow>
               die cxn1 (emit (Promise (pr_promise pr) nil_Response (Some writeErr)) w1)
           | ((corrID', bytesWritten, None), cxn1, w1) \<Rightarrow>
               if isNoResp
               then (cxn1, emit (Promise (pr_promise pr) (ProduceResponse_ptr noResp) None) w1)
               else
                 waitResp
                   \<lparr>p_corrID = corrID',
                    p_flexibleHeader = (IsFlexible cl (Key req1) (Version req1) \<and> Key req1 \<noteq> 18),
                    p_resp = ResponseKind req1, p_promise = pr_promise pr,
                    p_bytesWritten = bytesWritten\<rparr>
                   cxn1 w1))"

text \<open>\<open>handleReq\<close>.  The connection is the one the broker's field points to, so what
  happens to it is stored back into the field.  A nil \<open>pr.ctx\<close> panics at the first
  line.\<close>

definition handleReq :: "Client \<Rightarrow> promisedReq \<Rightarrow> broker \<Rightarrow> world \<Rightarrow> (broker \<times> world) exec" where
  "handleReq cl pr b w =
     (case pr_ctx pr of
        None \<Rightarrow> Panic ''invalid memory address or nil pointer dereference''
      | Some ctx \<Rightarrow>
          let req = pr_req pr;
              requestId = (case ctx_requestId ctx of Some r \<Rightarrow> r | None \<Rightarrow> ''empty-request-id'')
          in
          case loadConnection cl requestId req b w of
            Panic s \<Rightarrow> Panic s
          | Stuck \<Rightarrow> Stuck
          | Done (Inl err, b1, w1) \<Rightarrow>
              Done (b1, emit (Promise (pr_promise pr) nil_Response (Some err)) w1)
          | Done (Inr pcxn, b1, w1) \<Rightarrow>
              (case deref pcxn b1 of
                 None \<Rightarrow> Panic ''invalid memory address or nil pointer dereference''
               | Some cxn \<Rightarrow>
                   (case checkVersion cl (versions b1) req of
                      Panic s \<Rightarrow> Panic s
                    | Stuck \<Rightarrow> Stuck
                    | Done (Inl err) \<Rightarrow>
                        Done (b1, emit (Promise (pr_promise pr) nil_Response (Some err)) w1)
                    | Done (Inr version) \<Rightarrow>
                        (case reauthenticate cl b1 pr requestId 1 cxn w1 of
                           Panic s \<Rightarrow> Panic s
                         | Stuck \<Rightarrow> Stuck
                         | Done (False, cxn1, w2) \<Rightarrow> Done (assign pcxn (Some cxn1) b1, w2)
                         | Done (True, cxn1, w2) \<Rightarrow>
                             (case ctx_Err ctx of
                                Some err \<Rightarrow>
                                  Done (assign pcxn (Some cxn1) b1,
                                        emit (Promise (pr_promise pr) nil_Response (Some err)) w2)
                              | None \<Rightarrow>
                                  (case issue cl pr (req\<lparr>Version := version\<rparr>) cxn1 w2 of
                                     (cxn2, w3) \<Rightarrow> Done (assign pcxn (Some cxn2) b1, w3)))))))"

subsection \<open>Successive calls of writeRequest\<close>



subsection \<open>What a run shows\<close>

text \<open>The number of reauthentications a run has started: the loop of \<open>handleReq\<close> logs
  its debug line once before each call of \<open>sasl\<close>, and nothing else logs it.\<close>

definition reauths :: "world \<Rightarrow> nat" where
  "reauths w = length (filter (\<lambda>e. e = LogReauthenticating) (events w))"

text \<open>Two worlds between which nothing was dialed and no reauthentication started; and
  the same with a connection that is as dead as before and has the same response
  queue.\<close>

definition quiet :: "world \<Rightarrow> world \<Rightarrow> bool" where
  "quiet w w' \<longleftrightarrow> ndials w' = ndials w \<and> reauths w' = reauths w"

definition steady :: "brokerCxn \<Rightarrow> world \<Rightarrow> brokerCxn \<Rightarrow> world \<Rightarrow> bool" where
  "steady cxn w cxn' w' \<longleftrightarrow> quiet w w' \<and> dead cxn' = dead cxn \<and> resps cxn' = resps cxn"

text \<open>\<open>die\<close> kills the response queue only after it has set \<open>dead\<close>, and nothing else
  kills it: in a broker that \<open>handleReq\<close> alone has worked on, a connection that is not
  dead has a live queue.\<close>

definition wf_cxn :: "brokerCxn option \<Rightarrow> bool" where
  "wf_cxn c = (case c of None \<Rightarrow> True | Some cxn \<Rightarrow> \<not> (ring_dead (resps cxn) \<and> dead cxn = 0))"

definition well_formed :: "broker \<Rightarrow> bool" where
  "well_formed b \<longleftrightarrow>
     wf_cxn (cxnNormal b) \<and> wf_cxn (cxnProduce b) \<and> wf_cxn (cxnFetch b)
     \<and> wf_cxn (cxnGroup b) \<and> wf_cxn (cxnSlow b)"


section \<open>Example values\<close>

text \<open>A client with the default read limit of 100 MiB and a codec that frames a request
  as length, key, version and correlation ID; a quiet world whose clock reads 0, 1, 2,
  ...; and a request.\<close>

definition example_Client :: Client where
  "example_Client =
     \<lparr>maxVersions = None, minVersions = None, acks = 0, produceTimeout = 10000000000,
      sasls = [], maxBrokerReadBytes = 104857600, MaxKey = 67,
      AppendRequest = (\<lambda>req c. BigEndian_PutUint32 8
         @ [ucast (drop_bit 8 (Key req)), ucast (Key req),
            ucast (drop_bit 8 (Version req)), ucast (Version req)]
         @ BigEndian_PutUint32 c),
      MaxVersion = (\<lambda>t. 9),
      IsFlexible = (\<lambda>k v. False),
      SkipTags = (\<lambda>b. Inr b),
      ReadFrom_ApiVersions = (\<lambda>v b. Inr [(0, 7), (17, 1), (18, 3), (36, 2)]),
      ReadFrom_SASLHandshake = (\<lambda>v b. Inr (0, [])),
      ReadFrom_SASLAuthenticate = (\<lambda>v b. Inr (0, None, [], 0))\<rparr>"

definition example_world :: world where
  "example_world =
     \<lparr>clock = (\<lambda>n. int n), ticks = 0, inbound = [], read_fail = ErrExternal ''EOF'',
      write_res = (\<lambda>k. None), outbound = [],
      dial_res = (\<lambda>k. None), ndials = 0,
      auth_res = (\<lambda>name k. Inl (ErrExternal ''no mechanism'')), nauths = 0,
      throttle_wake = timer_fired, events = []\<rparr>"


text \<open>A broker that has no connection and no versions yet.\<close>

definition example_broker :: broker where
  "example_broker =
     \<lparr>versions = None, cxnNormal = None, cxnProduce = None, cxnFetch = None,
      cxnGroup = None, cxnSlow = None\<rparr>"


text \<open>SASL with one mechanism: a session that is done after one challenge, a broker that
  supports version 1 of every request, and a peer that answers the one
  \<open>SASLAuthenticate\<close> request with a session lifetime of \<open>L\<close> milliseconds.  The clock
  advances by one second at every reading.\<close>

definition sasl_Client :: "int64 \<Rightarrow> Client" where
  "sasl_Client L =
     example_Client\<lparr>sasls := [''PLAIN''],
       ReadFrom_SASLAuthenticate := (\<lambda>v b. Inr (0, None, [], L))\<rparr>"

definition sasl_world :: world where
  "sasl_world =
     example_world\<lparr>clock := (\<lambda>n. int n * 1000000000),
       auth_res := (\<lambda>name k. Inr ([Inr (True, [])], [1, 2, 3])),
       inbound := [0, 0, 0, 4, 0, 0, 0, 0]\<rparr>"



text \<open>A broker whose versions are loaded (version 1 for each of the 68 keys) and whose
  normal and produce connections are open, in a world whose clock reads the present; a
  context that is not cancelled; and requests: one with a given key, one with a given
  produce type.\<close>

definition live_ctx :: go_context where
  "live_ctx = \<lparr>ctx_Err = None, is_client_ctx = False, ctx_requestId = None\<rparr>"

definition live_world :: world where
  "live_world = example_world\<lparr>clock := (\<lambda>n. 63800000000000000000 + int n)\<rparr>"

definition live_broker :: broker where
  "live_broker =
     example_broker\<lparr>versions := Some (replicate 68 1), cxnNormal := Some new_brokerCxn,
       cxnProduce := Some new_brokerCxn\<rparr>"

definition request_with_key :: "int16 \<Rightarrow> promisedReq" where
  "request_with_key k =
     \<lparr>pr_ctx = Some live_ctx, pr_req = \<lparr>rtype = other_request k False, Version = 0\<rparr>,
      pr_promise = 1\<rparr>"

definition produce_request :: "request_type \<Rightarrow> promisedReq" where
  "produce_request t =
     \<lparr>pr_ctx = Some live_ctx, pr_req = \<lparr>rtype = t, Version = 0\<rparr>, pr_promise = 1\<rparr>"

text \<open>A GSSAPI session that never carries a lifetime, on a connection whose expiry (5)
  lies before every reading of the clock: each reauthentication writes the token
  \<open>01\<close>, reads an empty frame, and leaves the expiry as it was.  \<open>gss_world i\<close> is the
  world after \<open>i\<close> such rounds; the peer has sixteen empty frames to send.\<close>

definition gss_Client :: Client where
  "gss_Client = example_Client\<lparr>sasls := [''GSSAPI'']\<rparr>"

definition gss_world :: "nat \<Rightarrow> world" where
  "gss_world i =
     example_world\<lparr>clock := (\<lambda>n. 10 + int n), ticks := 2 * i,
       inbound := replicate (4 * (16 - i)) 0, outbound := replicate i [0, 0, 0, 1, 1],
       auth_res := (\<lambda>name k. Inr ([Inr (True, [])], [1])), nauths := i,
       events := replicate i LogReauthenticating\<rparr>"

definition gss_cxn :: brokerCxn where
  "gss_cxn =
     new_brokerCxn\<lparr>mechanism := Some ''GSSAPI'', expiry := 5,
       AuthRequestId := ''empty-request-id''\<rparr>"

definition gss_broker :: broker where
  "gss_broker = example_broker\<lparr>versions := Some (replicate 68 1), cxnNormal := Some gss_cxn\<rparr>"

text \<open>A session of three turns: the mechanism answers the first response with another
  token, the second with a last token and \<open>done\<close>, so that the third
  \<open>SASLAuthenticate\<close> request is written and no response to it is read.  The client
  decodes the session lifetime from the first byte of a response (in seconds); the peer
  sends a lifetime of 10 s and then one of 20 s.  The clock advances by one second at
  every reading.\<close>

definition lifetime_Client :: Client where
  "lifetime_Client =
     example_Client\<lparr>sasls := [''PLAIN''],
       ReadFrom_SASLAuthenticate :=
         (\<lambda>v b. Inr (0, None, [], case b of [] \<Rightarrow> 0 | x # rest \<Rightarrow> ucast x * 1000))\<rparr>"

definition lifetime_world :: world where
  "lifetime_world =
     example_world\<lparr>clock := (\<lambda>n. int n * 1000000000),
       auth_res := (\<lambda>name k. Inr ([Inr (False, [7]), Inr (True, [9])], [1, 2, 3])),
       inbound := [0, 0, 0, 5, 0, 0, 0, 0, 10, 0, 0, 0, 5, 0, 0, 0, 1, 20]\<rparr>"

section \<open>Auxiliary facts\<close>

subsection \<open>Big-endian words\<close>

lemma Uint32_top_byte: "drop_bit 24 (BigEndian_Uint32 [b0, b1, b2, b3]) = ucast b0"
  unfolding BigEndian_Uint32_def
  by (rule bit_word_eqI) (auto simp: bit_simps dest: bit_imp_le_length)

lemma uint_Uint32_top_byte: "uint (BigEndian_Uint32 [b0, b1, b2, b3]) div 2 ^ 24 = uint b0"
proof -
  have "uint (drop_bit 24 (BigEndian_Uint32 [b0, b1, b2, b3])) = uint (ucast b0 :: 32 word)"
    by (simp only: Uint32_top_byte)
  moreover have "uint (ucast b0 :: 32 word) = uint b0"
    by (simp add: unsigned_ucast_eq take_bit_int_eq_self_iff) (use uint_bounded[of b0] in simp)
  ultimately show ?thesis
    by (simp add: unsigned_drop_bit_eq drop_bit_eq_div uint_div take_bit_int_eq_self_iff)
qed

lemma sint_nonneg_uint: "0 \<le> sint (x::int32) \<Longrightarrow> sint x = uint x"
proof -
  assume "0 \<le> sint x"
  then have nb: "\<not> bit (uint x) 31"
    using bit_last_iff[of x] by (simp add: bit_uint_iff)
  have "uint x < 2 ^ 32" using uint_bounded[of x] by simp
  then have "take_bit (Suc 31) (uint x) = uint x"
    by (simp add: take_bit_int_eq_self_iff)
  moreover have "take_bit (Suc 31) (uint x) = 2 ^ 31 * of_bool (bit (uint x) 31) + take_bit 31 (uint x)"
    by (rule take_bit_Suc_from_most)
  ultimately have "take_bit 31 (uint x) = uint x"
    using nb by (simp only: of_bool_def if_False mult_zero_right add_0)
  with nb show ?thesis
    by (simp add: sint_uint signed_take_bit_eq_if_positive)
qed

lemma TLS_alert_below_HTTP:
  assumes "0 \<le> sint (BigEndian_Uint32 [21, b1, b2, b3])"
  shows "sint (BigEndian_Uint32 [21, b1, b2, b3]) < 0x48545450"
proof -
  let ?s = "BigEndian_Uint32 [21, b1, b2, b3]"
  have "uint ?s div 2 ^ 24 = 21" using uint_Uint32_top_byte[of 21 b1 b2 b3] by simp
  then have "uint ?s < 22 * 2 ^ 24" by simp
  moreover have "sint ?s = uint ?s" using sint_nonneg_uint[OF assms] .
  ultimately show ?thesis by simp
qed

lemma Uint32_PutUint32: "BigEndian_Uint32 (BigEndian_PutUint32 v @ rest) = v"
proof (rule bit_word_eqI)
  fix n :: nat
  assume "n < LENGTH(32)"
  then consider "n < 8" | "8 \<le> n" "n < 16" | "16 \<le> n" "n < 24" | "24 \<le> n" "n < 32"
    by fastforce
  then show "bit (BigEndian_Uint32 (BigEndian_PutUint32 v @ rest)) n = bit v n"
    unfolding BigEndian_Uint32_def BigEndian_PutUint32_def
    by cases (auto simp: bit_simps)
qed

lemma length_PutUint32: "length (BigEndian_PutUint32 v) = 4"
  by (simp add: BigEndian_PutUint32_def)

lemma sint_word_of_int_32: "0 \<le> N \<Longrightarrow> N \<le> sint (m::int32) \<Longrightarrow> sint (word_of_int N :: int32) = N"
proof -
  assume a: "0 \<le> N" "N \<le> sint m"
  have "sint m < 2 ^ 31" using sint_less[of m] by simp
  with a have "N < 2 ^ 31" by linarith
  with a show ?thesis
    by (simp add: sint_sbintrunc' signed_take_bit_int_eq_self)
qed

lemma versionGuess_cases:
  "versionGuess v =
     (if v = 0x0300 then KnownVersion ''SSL v3'' else if v = 0x0301 then KnownVersion ''TLS v1.0''
      else if v = 0x0302 then KnownVersion ''TLS v1.1'' else if v = 0x0303 then KnownVersion ''TLS v1.2''
      else if v = 0x0304 then KnownVersion ''TLS v1.3'' else UnknownTLSVersion v)"
  by (simp add: versionGuess_def tls_guesses_def)

subsection \<open>writeRequest and the correlation ID\<close>

lemma writeRequest_send_corrID:
  "writeRequest_send cl req cxn w = ((c, n, e), cxn', w') \<Longrightarrow>
     (if e = None then c = corrID cxn \<and> cxn' = cxn\<lparr>corrID := corrID cxn + 1\<rparr> else cxn' = cxn)"
  by (auto simp: writeRequest_send_def Let_def split: prod.splits option.splits)

lemma writeRequest_corrID:
  "writeRequest cl ctx req cxn w = ((c, n, e), cxn', w') \<Longrightarrow>
     (if e = None then c = corrID cxn \<and> cxn' = cxn\<lparr>corrID := corrID cxn + 1\<rparr> else cxn' = cxn)"
  unfolding writeRequest_def
  by (auto split: option.splits prod.splits if_splits dest: writeRequest_send_corrID)


subsection \<open>Evaluating the examples\<close>

declare requestAPIVersions_start.simps [simp del]
declare doSasl_loop.simps [simp del]
declare sasl_start.simps [simp del]
declare reauthenticate.simps [simp del]
declare bitlen.simps [simp del]

lemmas write_defs = writeRequest_def writeRequest_send_def writeConn_def conn_Write_def
lemmas read_defs = readResponse_def readConn_def io_ReadFull_def parseReadSize_def
  BigEndian_Uint32_def word_sless_alt

lemma bitlen_numeral [simp]:
  "bitlen 0 = 0"
  "bitlen (numeral k) = Suc (bitlen (numeral k div 2))"
  by (simp_all add: bitlen.simps[of 0] bitlen.simps[of "numeral k"])

lemma bitlen_1 [simp]: "bitlen 1 = 1" "bitlen (Suc 0) = 1"
  by (simp_all add: bitlen.simps[of 1] bitlen.simps[of "Suc 0"] bitlen.simps[of 0])



lemma sasl_Client_simps [simp]:
  "IsFlexible (sasl_Client L) = (\<lambda>k v. False)"
  "ReadFrom_SASLAuthenticate (sasl_Client L) = (\<lambda>v b. Inr (0, None, [], L))"
  "maxBrokerReadBytes (sasl_Client L) = 104857600"
  "SkipTags (sasl_Client L) = (\<lambda>b. Inr b)"
  "sasls (sasl_Client L) = [''PLAIN'']"
  "AppendRequest (sasl_Client L) = AppendRequest example_Client"
  by (simp_all add: sasl_Client_def example_Client_def)

lemma sasl_clock [simp]: "clock sasl_world n = int n * 1000000000"
  by (simp add: sasl_world_def)



subsection \<open>Remaining lifetime of a SASL session\<close>

lemma sint_int64_id: "- (2 ^ 63) \<le> k \<Longrightarrow> k < 2 ^ 63 \<Longrightarrow> sint (word_of_int k :: int64) = k"
  by (simp add: sint_sbintrunc' signed_take_bit_int_eq_self)

lemma sint_int64_range: "- (2 ^ 63) \<le> sint (x :: int64) \<and> sint x < 2 ^ 63"
  using sint_ge[of x] sint_lt[of x] by simp




subsection \<open>What each function leaves unchanged\<close>

lemma quiet_refl [simp]: "quiet w w"
  by (simp add: quiet_def)

lemma quiet_trans: "quiet w w1 \<Longrightarrow> quiet w1 w2 \<Longrightarrow> quiet w w2"
  by (simp add: quiet_def)

lemma quiet_emit: "e \<noteq> LogReauthenticating \<Longrightarrow> quiet w w' \<Longrightarrow> quiet w (emit e w')"
  by (simp add: quiet_def emit_def reauths_def)

lemma quiet_time_Now: "time_Now w = (t, w') \<Longrightarrow> quiet w w'"
  by (auto simp: time_Now_def quiet_def reauths_def)

lemma quiet_io_ReadFull: "io_ReadFull n w = (r, w') \<Longrightarrow> quiet w w'"
  by (auto simp: io_ReadFull_def quiet_def reauths_def split: if_splits)

lemma quiet_conn_Write: "conn_Write buf w = (r, w') \<Longrightarrow> quiet w w'"
  by (auto simp: conn_Write_def quiet_def reauths_def split: option.splits)

lemma quiet_readConn: "readConn cl w = (r, w') \<Longrightarrow> quiet w w'"
  unfolding readConn_def
  by (auto split: prod.splits option.splits sum.splits
        dest!: quiet_io_ReadFull intro: quiet_trans)

lemma quiet_readResponse: "readResponse cl c flex w = (r, w') \<Longrightarrow> quiet w w'"
  unfolding readResponse_def
  by (auto simp: Let_def split: prod.splits option.splits if_splits dest!: quiet_readConn)

lemma quiet_writeRequest_send: "writeRequest_send cl req cxn w = (r, cxn', w') \<Longrightarrow> quiet w w'"
  unfolding writeRequest_send_def writeConn_def
  by (auto simp: Let_def split: prod.splits option.splits dest!: quiet_conn_Write)

lemma quiet_writeRequest: "writeRequest cl ctx req cxn w = (r, cxn', w') \<Longrightarrow> quiet w w'"
  unfolding writeRequest_def
  by (auto split: prod.splits option.splits if_splits
        dest!: quiet_writeRequest_send quiet_time_Now intro: quiet_trans)

lemma quiet_die: "die cxn w = (cxn', w') \<Longrightarrow> quiet w w'"
  by (auto simp: die_def quiet_emit split: if_splits)

lemma steady_refl [simp]: "steady cxn w cxn w"
  by (simp add: steady_def)

lemma steady_trans: "steady cxn w cxn1 w1 \<Longrightarrow> steady cxn1 w1 cxn2 w2 \<Longrightarrow> steady cxn w cxn2 w2"
  by (auto simp: steady_def intro: quiet_trans)

lemma steady_quiet: "quiet w w' \<Longrightarrow> steady cxn w cxn w'"
  by (simp add: steady_def)

lemma steady_quiet_after: "steady cxn w cxn1 w1 \<Longrightarrow> quiet w1 w2 \<Longrightarrow> steady cxn w cxn1 w2"
  by (auto simp: steady_def intro: quiet_trans)

lemma steady_quiet_before: "quiet w w1 \<Longrightarrow> steady cxn w1 cxn2 w2 \<Longrightarrow> steady cxn w cxn2 w2"
  by (auto simp: steady_def intro: quiet_trans)

lemma steady_writeRequest: "writeRequest cl ctx req cxn w = (r, cxn', w') \<Longrightarrow> steady cxn w cxn' w'"
proof -
  assume a: "writeRequest cl ctx req cxn w = (r, cxn', w')"
  obtain c n e where r: "r = (c, n, e)" by (cases r)
  have "cxn' = cxn \<or> cxn' = cxn\<lparr>corrID := corrID cxn + 1\<rparr>"
    using writeRequest_corrID[of cl ctx req cxn w c n e cxn' w'] a r by (auto split: if_splits)
  then show ?thesis
    using quiet_writeRequest[OF a] by (auto simp: steady_def)
qed

lemma steady_requestAPIVersions_start_0:
  "requestAPIVersions_start cl 0 cxn b w = (r, cxn', b', w') \<Longrightarrow> steady cxn w cxn' w'"
  by (subst (asm) requestAPIVersions_start.simps)
     (auto simp: Let_def split: prod.splits option.splits sum.splits if_splits
        dest!: steady_writeRequest quiet_readResponse intro: steady_quiet_after)

lemma steady_requestAPIVersions_start:
  "requestAPIVersions_start cl maxVersion cxn b w = (r, cxn', b', w') \<Longrightarrow> steady cxn w cxn' w'"
  by (subst (asm) requestAPIVersions_start.simps)
     (auto simp: Let_def split: prod.splits option.splits sum.splits if_splits
        dest!: steady_writeRequest quiet_readResponse steady_requestAPIVersions_start_0
        intro: steady_quiet_after steady_trans)

lemma steady_requestAPIVersions:
  "requestAPIVersions cl cxn b w = (r, cxn', b', w') \<Longrightarrow> steady cxn w cxn' w'"
  unfolding requestAPIVersions_def Let_def by (rule steady_requestAPIVersions_start)

lemma steady_doSasl_lifetime:
  "doSasl_lifetime prereq lifetimeMillis cxn w = (cxn', w') \<Longrightarrow> steady cxn w cxn' w'"
  unfolding doSasl_lifetime_def
  by (auto simp: Let_def steady_def split: prod.splits if_splits
        dest!: quiet_time_Now intro: quiet_trans quiet_emit)

lemma steady_doSasl_turn:
  "doSasl_turn cl b authenticate dn clientWrite prereq lifetimeMillis cxn w
     = Done (r, prereq1, lifetime1, cxn1, w1) \<Longrightarrow> steady cxn w cxn1 w1"
  unfolding doSasl_turn_def writeConn_def
  by (auto simp: Let_def split: exec.splits prod.splits option.splits sum.splits if_splits
        dest!: quiet_time_Now quiet_conn_Write quiet_readConn steady_writeRequest quiet_readResponse
        intro: quiet_trans steady_quiet steady_quiet_after steady_quiet_before)

lemma steady_doSasl_loop:
  "doSasl_loop cl b authenticate dn clientWrite session prereq lifetimeMillis cxn w
     = Done (r, cxn', w') \<Longrightarrow> steady cxn w cxn' w'"
proof (induction cl b authenticate dn clientWrite session prereq lifetimeMillis cxn w
        arbitrary: r cxn' w' rule: doSasl_loop.induct)
  case (1 cl b authenticate dn clientWrite session prereq lifetimeMillis cxn w)
  show ?case
  proof (cases "\<not> (\<not> dn \<or> 0 < length clientWrite)")
    case True
    with "1.prems" show ?thesis
      by (subst (asm) doSasl_loop.simps) (auto split: if_splits)
  next
    case False
    show ?thesis
    proof (cases "doSasl_turn cl b authenticate dn clientWrite prereq lifetimeMillis cxn w")
      case (Done t)
      obtain rr prereq1 lifetime1 cxn1 w1 where t: "t = (rr, prereq1, lifetime1, cxn1, w1)"
        by (metis prod_cases5)
      have q1: "steady cxn w cxn1 w1" using Done t by (auto dest: steady_doSasl_turn)
      show ?thesis
      proof (cases rr)
        case (Inl err)
        with "1.prems" False Done t q1 show ?thesis
          by (subst (asm) doSasl_loop.simps) (auto split: if_splits)
      next
        case (Inr challenge)
        show ?thesis
        proof (cases "dn")
          case True
          have le: "doSasl_loop cl b authenticate dn [] session prereq1 lifetime1 cxn1 w1
                  = Done (r, cxn', w')"
            using "1.prems" False Done t Inr True
            by (subst (asm) doSasl_loop.simps) (auto split: if_splits)
          have nn: "\<not> \<not> dn" using True by simp
          have "steady cxn1 w1 cxn' w'"
            by (rule "1.IH"(2)[OF False Done t[symmetric] Inr refl refl refl nn le])
          with q1 show ?thesis by (rule steady_trans)
        next
          case nd: False
          show ?thesis
          proof (cases session)
            case Nil
            with "1.prems" False Done t Inr nd show ?thesis
              by (subst (asm) doSasl_loop.simps) (auto split: if_splits)
          next
            case (Cons a session')
            show ?thesis
            proof (cases a)
              case (Inl err)
              with "1.prems" False Done t Inr nd Cons q1 show ?thesis
                by (subst (asm) doSasl_loop.simps) (auto split: if_splits)
            next
              case ans: (Inr dc)
              obtain dn' clientWrite' where dc: "dc = (dn', clientWrite')" by (cases dc)
              have "doSasl_loop cl b authenticate dn' clientWrite' session' prereq1 lifetime1 cxn1 w1
                  = Done (r, cxn', w')"
                using "1.prems" False Done t Inr nd Cons ans dc
                by (subst (asm) doSasl_loop.simps) (auto split: if_splits)
              then have "steady cxn1 w1 cxn' w'"
                by (rule "1.IH"(1)[OF False Done t[symmetric] Inr refl refl refl nd Cons ans dc[symmetric]])
              with q1 show ?thesis by (rule steady_trans)
            qed
          qed
        qed
      qed
    next
      case (Panic s)
      with "1.prems" False show ?thesis
        by (subst (asm) doSasl_loop.simps) (auto split: if_splits)
    next
      case Stuck
      with "1.prems" False show ?thesis
        by (subst (asm) doSasl_loop.simps) (auto split: if_splits)
    qed
  qed
qed

lemma steady_doSasl:
  "doSasl cl authenticate requestId cxn b w = Done (r, cxn', w') \<Longrightarrow> steady cxn w cxn' w'"
proof -
  assume a: "doSasl cl authenticate requestId cxn b w = Done (r, cxn', w')"
  have q0: "quiet w (w\<lparr>nauths := Suc (nauths w)\<rparr>)"
    by (simp add: quiet_def reauths_def)
  have s0: "steady cxn w (cxn\<lparr>AuthRequestId := requestId\<rparr>)
              (w\<lparr>nauths := Suc (nauths w), ticks := Suc (ticks w)\<rparr>)"
    by (simp add: steady_def quiet_def reauths_def)
  show ?thesis
    using a q0 s0
    by (auto simp: doSasl_def Let_def time_Now_def
          split: option.splits sum.splits prod.splits if_splits exec.splits
          dest!: steady_doSasl_loop steady_doSasl_lifetime
          intro: steady_quiet steady_trans)
qed

lemma steady_mechanism: "steady (cxn\<lparr>mechanism := m\<rparr>) w cxn' w' \<Longrightarrow> steady cxn w cxn' w'"
  by (simp add: steady_def)

lemma steady_sasl_start_retried:
  "sasl_start cl mech True requestId cxn b w = Done (r, cxn', w') \<Longrightarrow> steady cxn w cxn' w'"
  by (subst (asm) sasl_start.simps)
     (auto simp: Let_def split: exec.splits prod.splits option.splits sum.splits if_splits
        dest!: steady_writeRequest quiet_readResponse steady_doSasl
        intro: steady_quiet_after steady_trans steady_mechanism)

lemma steady_sasl_start:
  "sasl_start cl mech retried requestId cxn b w = Done (r, cxn', w') \<Longrightarrow> steady cxn w cxn' w'"
  by (subst (asm) sasl_start.simps)
     (auto simp: Let_def split: exec.splits prod.splits option.splits sum.splits if_splits
        dest!: steady_writeRequest quiet_readResponse steady_doSasl steady_sasl_start_retried
        intro: steady_quiet_after steady_trans steady_mechanism)

lemma steady_sasl:
  "sasl cl requestId cxn b w = Done (r, cxn', w') \<Longrightarrow> steady cxn w cxn' w'"
  by (auto simp: sasl_def split: if_splits dest: steady_sasl_start)

lemma steady_emit:
  "e \<noteq> LogReauthenticating \<Longrightarrow> steady cxn w cxn' w' \<Longrightarrow> steady cxn w cxn' (emit e w')"
  by (auto simp: steady_def intro: quiet_emit)

lemma steady_init:
  "init cl isProduceCxn requestId cxn b w = Done (r, cxn', b', w') \<Longrightarrow> steady cxn w cxn' w'"
  unfolding init_def
  by (auto simp: Let_def split: exec.splits prod.splits option.splits if_splits
        dest!: steady_requestAPIVersions steady_sasl
        intro: steady_trans steady_emit)

lemma quiet_connect: "connect w = (r, w') \<Longrightarrow> ndials w' = Suc (ndials w) \<and> reauths w' = reauths w"
  by (auto simp: connect_def Let_def emit_def reauths_def split: option.splits)

lemma loadConnection_dials:
  assumes "\<not> alive (deref (fst (route req)) b)"
    and "loadConnection cl requestId req b w = Done (r, b', w')"
  shows "ndials w' = Suc (ndials w) \<and> reauths w' = reauths w"
  using assms unfolding loadConnection_def
  by (auto simp: steady_def quiet_def emit_def reauths_def
        split: prod.splits option.splits exec.splits if_splits
        dest!: quiet_connect steady_init)

lemma loadConnection_reauths:
  "loadConnection cl requestId req b w = Done (r, b', w') \<Longrightarrow> reauths w' = reauths w"
  unfolding loadConnection_def
  by (auto simp: steady_def quiet_def emit_def reauths_def
        split: prod.splits option.splits exec.splits if_splits
        dest!: quiet_connect steady_init)

lemma die_dead: "die cxn w = (cxn', w') \<Longrightarrow> dead cxn' = 1 \<and> reauths w' = reauths w"
  by (auto simp: die_def emit_def reauths_def split: if_splits)

subsection \<open>The reauthentication loop\<close>

lemma reauths_emit_Log: "reauths (emit LogReauthenticating w) = Suc (reauths w)"
  by (simp add: reauths_def emit_def)

lemma reauths_emit_other: "e \<noteq> LogReauthenticating \<Longrightarrow> reauths (emit e w) = reauths w"
  by (simp add: reauths_def emit_def)

lemma reauths_tick: "reauths (w\<lparr>ticks := n\<rparr>) = reauths w"
  by (simp add: reauths_def)

lemma reauthenticate_bound:
  "reauthenticate cl b pr requestId k cxn w = Done (r, cxn', w') \<Longrightarrow>
     reauths w' \<le> reauths w + (16 - k) \<and> (\<not> r \<longrightarrow> dead cxn' = 1)
     \<and> (r \<longrightarrow> dead cxn' = dead cxn \<and> resps cxn' = resps cxn)"
proof (induction cl b pr requestId k cxn w arbitrary: r cxn' w' rule: reauthenticate.induct)
  case (1 cl b pr requestId k cxn w)
  let ?w1 = "w\<lparr>ticks := Suc (ticks w)\<rparr>"
  let ?now = "clock w (ticks w)"
  have tn: "time_Now w = (?now, ?w1)" by (simp add: time_Now_def)
  show ?case
  proof (cases "expiry cxn = 0 \<or> \<not> expiry cxn < ?now")
    case True
    with "1.prems" tn show ?thesis
      by (subst (asm) reauthenticate.simps) (auto simp: reauths_tick split: if_splits)
  next
    case go: False
    show ?thesis
    proof (cases "15 < k")
      case True
      with "1.prems" tn go show ?thesis
        by (subst (asm) reauthenticate.simps)
           (auto simp: reauths_tick reauths_emit_other split: if_splits prod.splits dest!: die_dead)
    next
      case False
      show ?thesis
      proof (cases "sasl cl requestId cxn b (emit LogReauthenticating ?w1)")
        case (Done x)
        obtain e cxn1 w2 where x: "x = (e, cxn1, w2)" by (cases x)
        have st: "steady cxn (emit LogReauthenticating ?w1) cxn1 w2"
          using Done x by (auto dest: steady_sasl)
        then have r2: "reauths w2 = Suc (reauths w)"
          by (simp add: steady_def quiet_def reauths_emit_Log reauths_tick)
        have fr: "dead cxn1 = dead cxn" "resps cxn1 = resps cxn"
          using st by (simp_all add: steady_def)
        show ?thesis
        proof (cases e)
          case None
          have le: "reauthenticate cl b pr requestId (Suc k) cxn1 w2 = Done (r, cxn', w')"
            using "1.prems" tn go False Done x None
            by (subst (asm) reauthenticate.simps) (auto split: if_splits)
          have e0: "expiry cxn \<noteq> 0" and lt: "\<not> \<not> expiry cxn < ?now" using go by auto
          have "reauths w' \<le> reauths w2 + (16 - Suc k) \<and> (\<not> r \<longrightarrow> dead cxn' = 1)
              \<and> (r \<longrightarrow> dead cxn' = dead cxn1 \<and> resps cxn' = resps cxn1)"
            by (rule "1.IH"[OF e0 tn[symmetric] lt False Done _ None _ le]) (simp_all add: x)
          with r2 fr False show ?thesis by auto
        next
          case (Some err)
          with "1.prems" tn go False Done x r2 show ?thesis
            by (subst (asm) reauthenticate.simps)
               (auto simp: reauths_emit_other split: if_splits prod.splits dest!: die_dead)
        qed
      next
        case (Panic s)
        with "1.prems" tn go False show ?thesis
          by (subst (asm) reauthenticate.simps) (auto split: if_splits)
      next
        case Stuck
        with "1.prems" tn go False show ?thesis
          by (subst (asm) reauthenticate.simps) (auto split: if_splits)
      qed
    qed
  qed
qed

lemma deref_assign [simp]: "deref p (assign p c b) = c"
  by (cases p) simp_all

lemma versions_assign [simp]: "versions (assign p c b) = versions b"
  by (cases p) simp_all

lemma waitResp_reauths: "waitResp p cxn w = (cxn', w') \<Longrightarrow> reauths w' = reauths w"
  by (auto simp: waitResp_def Let_def reauths_emit_other split: prod.splits if_splits)

lemma issue_reauths: "issue cl pr req cxn w = (cxn', w') \<Longrightarrow> reauths w' = reauths w"
  unfolding issue_def
  by (auto simp: reauths_emit_other steady_def quiet_def
        split: prod.splits option.splits if_splits
        dest!: steady_writeRequest die_dead waitResp_reauths)

lemma handleReq_bound:
  assumes "handleReq cl pr b w = Done (b', w')"
  shows "reauths w' \<le> reauths w + 15"
proof -
  obtain ctx where ctx: "pr_ctx pr = Some ctx"
    using assms by (cases "pr_ctx pr") (simp_all add: handleReq_def)
  define requestId where
    "requestId = (case ctx_requestId ctx of Some r \<Rightarrow> r | None \<Rightarrow> ''empty-request-id'')"
  obtain r b1 w1 where lc: "loadConnection cl requestId (pr_req pr) b w = Done (r, b1, w1)"
    using assms ctx
    by (cases "loadConnection cl requestId (pr_req pr) b w")
       (auto simp: handleReq_def requestId_def Let_def)
  have q1: "reauths w1 = reauths w" using lc by (rule loadConnection_reauths)
  show ?thesis
  proof (cases r)
    case (Inl err)
    with assms ctx lc q1 show ?thesis
      by (auto simp: handleReq_def requestId_def[symmetric] Let_def reauths_emit_other)
  next
    case (Inr pcxn)
    have rb: "reauths w2 \<le> reauths w1 + 15"
      if "reauthenticate cl b1 pr requestId (Suc 0) cxn k = Done (x, cxn1, w2)" "k = w1"
      for cxn k x cxn1 w2
      using reauthenticate_bound[OF that(1)] that(2) by simp
    show ?thesis
      using assms ctx lc Inr q1
      by (auto simp: handleReq_def requestId_def[symmetric] Let_def reauths_emit_other
            split: option.splits exec.splits sum.splits prod.splits bool.splits if_splits
            dest!: issue_reauths rb)
  qed
qed

subsection \<open>A connection returned by loadConnection\<close>

lemma well_formed_deref: "well_formed b \<Longrightarrow> wf_cxn (deref p b)"
  by (cases p) (simp_all add: well_formed_def)

lemma storeApiVersions_deref: "storeApiVersions cl v raw b = (e, b') \<Longrightarrow> deref p b' = deref p b"
  by (cases p) (auto simp: storeApiVersions_def split: sum.splits if_splits)

lemma requestAPIVersions_start_0_deref:
  "requestAPIVersions_start cl 0 cxn b w = (r, cxn', b', w') \<Longrightarrow> deref p b' = deref p b"
  by (subst (asm) requestAPIVersions_start.simps)
     (auto simp: Let_def split: prod.splits option.splits sum.splits if_splits
        dest: storeApiVersions_deref)

lemma requestAPIVersions_start_deref:
  "requestAPIVersions_start cl maxVersion cxn b w = (r, cxn', b', w') \<Longrightarrow> deref p b' = deref p b"
  by (subst (asm) requestAPIVersions_start.simps)
     (auto simp: Let_def split: prod.splits option.splits sum.splits if_splits
        dest: storeApiVersions_deref requestAPIVersions_start_0_deref)

lemma deref_versions [simp]: "deref p (b\<lparr>versions := v\<rparr>) = deref p b"
  by (cases p) simp_all

lemma init_deref:
  "init cl isProduceCxn requestId cxn b w = Done (r, cxn', b', w') \<Longrightarrow> deref p b' = deref p b"
  unfolding init_def requestAPIVersions_def
  by (auto simp: Let_def split: exec.splits prod.splits option.splits if_splits
        dest: requestAPIVersions_start_deref)

lemma loadConnection_alive:
  assumes "well_formed b" and "loadConnection cl requestId req b w = Done (Inr pcxn, b1, w1)"
  shows "pcxn = fst (route req)
    \<and> (\<exists>cxn. deref pcxn b1 = Some cxn \<and> dead cxn = 0 \<and> \<not> ring_dead (resps cxn))"
proof -
  obtain p isP where rt: "route req = (p, isP)" by (cases "route req")
  show ?thesis
  proof (cases "alive (deref p b)")
    case True
    then have e1: "pcxn = p" and e2: "b1 = b"
      using assms(2) rt by (simp_all add: loadConnection_def)
    from True obtain cxn where c: "deref p b = Some cxn" "dead cxn = 0"
      by (auto simp: alive_def split: option.splits)
    have "\<not> ring_dead (resps cxn)"
      using well_formed_deref[OF assms(1), of p] c by (simp add: wf_cxn_def)
    with c have "\<exists>cxn. deref p b = Some cxn \<and> dead cxn = 0 \<and> \<not> ring_dead (resps cxn)"
      by blast
    then show ?thesis
      unfolding e1 e2 rt by simp
  next
    case False
    obtain e w0 where cn: "connect w = (e, w0)" by (cases "connect w")
    have eq: "(case e of
                 Some err \<Rightarrow> Done (Inl err, b, w0)
               | None \<Rightarrow>
                   (case init cl isP requestId new_brokerCxn b w0 of
                      Panic s \<Rightarrow> Panic s
                    | Stuck \<Rightarrow> Stuck
                    | Done (Some err, cxn, b1, w2) \<Rightarrow> Done (Inl err, b1, emit CloseConn w2)
                    | Done (None, cxn, b1, w2) \<Rightarrow> Done (Inr p, assign p (Some cxn) b1, w2)))
              = Done (Inr pcxn, b1, w1)"
      using assms(2) rt False cn by (simp add: loadConnection_def)
    then have en: "e = None" by (cases e) simp_all
    from eq en obtain x where ix: "init cl isP requestId new_brokerCxn b w0 = Done x"
      by (cases "init cl isP requestId new_brokerCxn b w0") simp_all
    obtain ie cxn b0 w2 where x: "x = (ie, cxn, b0, w2)" by (metis prod_cases4)
    from eq en ix x have ien: "ie = None" by (cases ie) simp_all
    from eq en ix x ien have b1: "b1 = assign p (Some cxn) b0" and p: "pcxn = p" and w1: "w1 = w2"
      by auto
    have "steady new_brokerCxn w0 cxn w2" using ix x by (auto dest: steady_init)
    then have "dead cxn = 0" "\<not> ring_dead (resps cxn)"
      by (simp_all add: steady_def new_brokerCxn_def)
    then show ?thesis
      unfolding b1 p rt by simp
  qed
qed

lemma handleReq_stages:
  assumes "pr_ctx pr = Some ctx"
    and "requestId = (case ctx_requestId ctx of Some r \<Rightarrow> r | None \<Rightarrow> ''empty-request-id'')"
    and "loadConnection cl requestId (pr_req pr) b w = Done (Inr pcxn, b1, w1)"
    and "deref pcxn b1 = Some cxn"
    and "checkVersion cl (versions b1) (pr_req pr) = Done (Inr version)"
    and "reauthenticate cl b1 pr requestId 1 cxn w1 = Done (go_on, cxn1, w2)"
  shows "handleReq cl pr b w =
     (if \<not> go_on then Done (assign pcxn (Some cxn1) b1, w2)
      else case ctx_Err ctx of
             Some err \<Rightarrow> Done (assign pcxn (Some cxn1) b1,
                            emit (Promise (pr_promise pr) nil_Response (Some err)) w2)
           | None \<Rightarrow>
               (case issue cl pr ((pr_req pr)\<lparr>Version := version\<rparr>) cxn1 w2 of
                  (cxn2, w3) \<Rightarrow> Done (assign pcxn (Some cxn2) b1, w3)))"
  using assms by (simp add: handleReq_def Let_def)

lemma produceSwitch_cases:
  "produceSwitch cl req = (req1, isNoResp, noResp) \<Longrightarrow>
     (isNoResp \<longleftrightarrow>
        (case rtype req of
           produceRequest r_acks \<Rightarrow> r_acks = 0
         | kmsg_ProduceRequest r_Acks r_TimeoutMillis \<Rightarrow> acks cl = 0
         | _ \<Rightarrow> False))
     \<and> (rtype req = kmsg_ProduceRequest a t \<longrightarrow>
          req1 = \<lparr>rtype = kmsg_ProduceRequest (acks cl)
                   (if acks cl = 0 then ucast (Milliseconds (produceTimeout cl)) else t),
                  Version = Version req\<rparr>
          \<and> noResp = Some (NewPtrProduceResponse\<lparr>resp_Version := Version req\<rparr>))
     \<and> (rtype req = produceRequest a \<longrightarrow> req1 = req \<and> noResp = None)"
  by (cases req) (auto simp: produceSwitch_def Let_def split: request_type.splits)

subsection \<open>Evaluating handleReq on the examples\<close>

lemma example_Client_simps [simp]:
  "maxVersions example_Client = None"
  "minVersions example_Client = None"
  "MaxKey example_Client = 67"
  "acks example_Client = 0"
  "MaxVersion example_Client = (\<lambda>t. 9)"
  "IsFlexible example_Client = (\<lambda>k v. False)"
  "sasls example_Client = []"
  "produceTimeout example_Client = 10000000000"
  by (simp_all add: example_Client_def)

lemma live_broker_simps [simp]:
  "versions live_broker = Some (replicate 68 1)"
  "cxnNormal live_broker = Some new_brokerCxn"
  "cxnProduce live_broker = Some new_brokerCxn"
  by (simp_all add: live_broker_def example_broker_def)

lemma new_brokerCxn_simps [simp]:
  "dead new_brokerCxn = 0" "expiry new_brokerCxn = 0" "corrID new_brokerCxn = 0"
  "throttleUntil new_brokerCxn = 0" "resps new_brokerCxn = \<lparr>elems = [], ring_dead = False\<rparr>"
  by (simp_all add: new_brokerCxn_def)

lemma loadConnection_live_Normal:
  "k \<noteq> 0 \<Longrightarrow> k \<noteq> 1 \<Longrightarrow> k \<noteq> 11 \<Longrightarrow> k \<noteq> 14 \<Longrightarrow>
   loadConnection example_Client rid \<lparr>rtype = other_request k False, Version = 0\<rparr> live_broker w
     = Done (Inr to_cxnNormal, live_broker, w)"
  by (simp add: loadConnection_def route_def Key_def isTimeoutRequest_def alive_def Let_def)

lemma produce_request_simps [simp]:
  "pr_ctx (produce_request t) = Some live_ctx"
  "pr_req (produce_request t) = \<lparr>rtype = t, Version = 0\<rparr>"
  "pr_promise (produce_request t) = 1"
  by (simp_all add: produce_request_def)

lemma live_ctx_simps [simp]:
  "ctx_Err live_ctx = None" "ctx_requestId live_ctx = None" "is_client_ctx live_ctx = False"
  by (simp_all add: live_ctx_def)

lemma loadConnection_live_Produce:
  "Key req = 0 \<Longrightarrow>
   loadConnection example_Client rid req live_broker w = Done (Inr to_cxnProduce, live_broker, w)"
  by (simp add: loadConnection_def route_def alive_def Let_def)

lemma checkVersion_live_Produce:
  "Key req = 0 \<Longrightarrow> checkVersion example_Client (Some (replicate 68 1)) req = Done (Inr 1)"
  by (simp add: checkVersion_def useVersion_def versions_index_def word_sle_eq word_sless_alt Let_def)

lemma reauthenticate_no_expiry:
  "expiry cxn = 0 \<Longrightarrow> reauthenticate cl b pr rid k cxn w = Done (True, cxn, w)"
  by (subst reauthenticate.simps) simp

lemma writeRequest_live:
  "writeRequest example_Client (Some live_ctx) req new_brokerCxn live_world
     = ((0, 12, None), new_brokerCxn\<lparr>corrID := 1\<rparr>,
        live_world\<lparr>ticks := 1, outbound := [AppendRequest example_Client req 0]\<rparr>)"
  by (simp add: write_defs time_Now_def time_Unix_nano_def live_world_def example_world_def
        example_Client_def Let_def BigEndian_PutUint32_def)

lemma gss_Client_simps [simp]:
  "sasls gss_Client = [''GSSAPI'']"
  "maxBrokerReadBytes gss_Client = 104857600"
  "maxVersions gss_Client = None"
  "minVersions gss_Client = None"
  "MaxKey gss_Client = 67"
  "MaxVersion gss_Client = (\<lambda>t. 9)"
  by (simp_all add: gss_Client_def example_Client_def)

lemma sasl_gss_round:
  assumes "auth_res w ''GSSAPI'' (nauths w) = Inr ([Inr (True, [])], [1])"
    and "write_res w (length (outbound w)) = None"
    and "inbound w = 0 # 0 # 0 # 0 # rest"
  shows "sasl gss_Client rid cxn b w
     = Done (None, cxn\<lparr>mechanism := Some ''GSSAPI'', AuthRequestId := rid\<rparr>,
         w\<lparr>nauths := Suc (nauths w), ticks := Suc (ticks w),
           outbound := outbound w @ [[0, 0, 0, 1, 1]], inbound := rest\<rparr>)"
proof -
  let ?cxn = "cxn\<lparr>mechanism := Some ''GSSAPI'', AuthRequestId := rid\<rparr>"
  let ?w1 = "w\<lparr>nauths := Suc (nauths w), ticks := Suc (ticks w)\<rparr>"
  let ?w2 = "w\<lparr>nauths := Suc (nauths w), ticks := Suc (ticks w),
           outbound := outbound w @ [[0, 0, 0, 1, 1]], inbound := rest\<rparr>"
  have wr: "writeConn [0, 0, 0, 1, 1] ?w1
      = ((5, None), ?w1\<lparr>outbound := outbound w @ [[0, 0, 0, 1, 1]]\<rparr>)"
    using assms(2) by (simp add: writeConn_def conn_Write_def)
  have rd: "readConn gss_Client (?w1\<lparr>outbound := outbound w @ [[0, 0, 0, 1, 1]]\<rparr>)
      = ((4, [], None), ?w2)"
    using assms(3) by (simp add: read_defs)
  have turn: "doSasl_turn gss_Client b False False [1] p 0 ?cxn ?w1
      = Done (Inr [], p, 0, ?cxn, ?w2)" for p
    by (simp add: doSasl_turn_def BigEndian_PutUint32_def wr rd Let_def)
  have loop: "doSasl_loop gss_Client b False False [1] [Inr (True, [])] p 0 ?cxn ?w1
      = Done (Inr (p, 0), ?cxn, ?w2)" for p
    apply (subst doSasl_loop.simps)
    apply (simp add: turn)
    apply (subst doSasl_loop.simps)
    apply simp
    done
  have "doSasl gss_Client False rid (cxn\<lparr>mechanism := Some ''GSSAPI''\<rparr>) b w
      = Done (None, ?cxn, ?w2)"
    using assms(1) loop
    by (simp add: doSasl_def time_Now_def doSasl_lifetime_def Let_def)
  then show ?thesis
    by (simp add: sasl_def) (subst sasl_start.simps, simp)
qed

lemma gss_inbound:
  "i < 16 \<Longrightarrow> inbound (gss_world i) = 0 # 0 # 0 # 0 # inbound (gss_world (Suc i))"
proof -
  assume "i < 16"
  then have "16 - i = Suc (16 - Suc i)" by simp
  then have "4 * (16 - i) = Suc (Suc (Suc (Suc (4 * (16 - Suc i)))))" by simp
  then show ?thesis by (simp add: gss_world_def)
qed

lemma gss_world_simps [simp]:
  "clock (gss_world i) n = 10 + int n"
  "ticks (gss_world i) = 2 * i"
  "nauths (gss_world i) = i"
  "ndials (gss_world i) = 0"
  "outbound (gss_world i) = replicate i [0, 0, 0, 1, 1]"
  "auth_res (gss_world i) = (\<lambda>name k. Inr ([Inr (True, [])], [1]))"
  "write_res (gss_world i) = (\<lambda>k. None)"
  "dial_res (gss_world i) = (\<lambda>k. None)"
  "events (gss_world i) = replicate i LogReauthenticating"
  by (simp_all add: gss_world_def example_world_def)

lemma gss_world_Suc:
  "i < 16 \<Longrightarrow>
   (emit LogReauthenticating ((gss_world i)\<lparr>ticks := Suc (2 * i)\<rparr>))
      \<lparr>nauths := Suc i, ticks := Suc (Suc (2 * i)),
       outbound := replicate i [0, 0, 0, 1, 1] @ [[0, 0, 0, 1, 1]],
       inbound := inbound (gss_world (Suc i))\<rparr>
   = gss_world (Suc i)"
  by (simp add: gss_world_def example_world_def emit_def replicate_append_same)

lemma gss_cxn_simps [simp]:
  "expiry gss_cxn = 5" "dead gss_cxn = 0"
  "gss_cxn\<lparr>mechanism := Some ''GSSAPI'', AuthRequestId := ''empty-request-id''\<rparr> = gss_cxn"
  by (simp_all add: gss_cxn_def new_brokerCxn_def)

lemma gss_one_round:
  assumes "i < 15"
  shows "reauthenticate gss_Client b pr ''empty-request-id'' (Suc i) gss_cxn (gss_world i)
     = reauthenticate gss_Client b pr ''empty-request-id'' (Suc (Suc i)) gss_cxn (gss_world (Suc i))"
proof -
  let ?w = "emit LogReauthenticating ((gss_world i)\<lparr>ticks := Suc (2 * i)\<rparr>)"
  have i16: "i < 16" using assms by simp
  have inb: "inbound ?w = 0 # 0 # 0 # 0 # inbound (gss_world (Suc i))"
    using gss_inbound[OF i16] by (simp add: emit_def)
  have s: "sasl gss_Client ''empty-request-id'' gss_cxn b ?w = Done (None, gss_cxn, gss_world (Suc i))"
    using sasl_gss_round[OF _ _ inb, of "''empty-request-id''" gss_cxn b] gss_world_Suc[OF i16]
    by (simp add: emit_def)
  show ?thesis
    using assms by (subst reauthenticate.simps) (simp add: time_Now_def s)
qed

lemma gss_rounds:
  "i \<le> 15 \<Longrightarrow>
   reauthenticate gss_Client b pr ''empty-request-id'' 1 gss_cxn (gss_world 0)
     = reauthenticate gss_Client b pr ''empty-request-id'' (Suc i) gss_cxn (gss_world i)"
proof (induction i)
  case 0
  show ?case by simp
next
  case (Suc i)
  then have "i < 15" by simp
  with Suc show ?case by (simp add: gss_one_round del: One_nat_def)
qed

lemma request_with_key_simps [simp]:
  "pr_ctx (request_with_key k) = Some live_ctx"
  "pr_req (request_with_key k) = \<lparr>rtype = other_request k False, Version = 0\<rparr>"
  "pr_promise (request_with_key k) = 1"
  by (simp_all add: request_with_key_def)

lemma gss_broker_simps [simp]:
  "versions gss_broker = Some (replicate 68 1)"
  "cxnNormal gss_broker = Some gss_cxn"
  by (simp_all add: gss_broker_def example_broker_def)

lemma gss_loadConnection:
  "loadConnection gss_Client rid \<lparr>rtype = other_request 3 False, Version = 0\<rparr> gss_broker w
     = Done (Inr to_cxnNormal, gss_broker, w)"
  by (simp add: loadConnection_def route_def Key_def isTimeoutRequest_def alive_def Let_def)

lemma gss_checkVersion:
  "checkVersion gss_Client (Some (replicate 68 1)) \<lparr>rtype = other_request 3 False, Version = 0\<rparr>
     = Done (Inr 1)"
  by (simp add: checkVersion_def useVersion_def versions_index_def Key_def word_sle_eq
        word_sless_alt Let_def)

lemma gss_redial:
  "loadConnection gss_Client ''empty-request-id'' \<lparr>rtype = other_request 3 False, Version = 0\<rparr>
     (gss_broker\<lparr>cxnNormal := Some (gss_cxn\<lparr>dead := 1, resps := ring_die (resps gss_cxn)\<rparr>)\<rparr>)
     (emit CloseConn (emit (Promise 1 nil_Response (Some errSaslReauthLoop))
        ((gss_world 15)\<lparr>ticks := 31\<rparr>)))
   = Done (Inr to_cxnNormal,
       gss_broker\<lparr>cxnNormal := Some (new_brokerCxn\<lparr>mechanism := Some ''GSSAPI'',
         AuthRequestId := ''empty-request-id''\<rparr>)\<rparr>,
       (gss_world 16)\<lparr>ndials := 1,
          events := [Dial, CloseConn, Promise 1 nil_Response (Some errSaslReauthLoop)]
             @ replicate 15 LogReauthenticating\<rparr>)"
proof -
  let ?b = "gss_broker\<lparr>cxnNormal := Some (gss_cxn\<lparr>dead := 1, resps := ring_die (resps gss_cxn)\<rparr>)\<rparr>"
  let ?w = "emit CloseConn (emit (Promise 1 nil_Response (Some errSaslReauthLoop))
        ((gss_world 15)\<lparr>ticks := 31\<rparr>))"
  let ?w1 = "emit Dial (?w\<lparr>ndials := Suc 0\<rparr>)"
  have c: "connect ?w = (None, ?w1)"
    by (simp add: connect_def emit_def Let_def)
  have inb: "inbound ?w1 = 0 # 0 # 0 # 0 # inbound (gss_world 16)"
    using gss_inbound[of 15] by (simp add: emit_def)
  have s: "sasl gss_Client ''empty-request-id'' new_brokerCxn ?b ?w1
     = Done (None, new_brokerCxn\<lparr>mechanism := Some ''GSSAPI'', AuthRequestId := ''empty-request-id''\<rparr>,
         ?w1\<lparr>nauths := Suc (nauths ?w1), ticks := Suc (ticks ?w1),
           outbound := outbound ?w1 @ [[0, 0, 0, 1, 1]], inbound := inbound (gss_world 16)\<rparr>)"
    by (rule sasl_gss_round[OF _ _ inb]) (simp_all add: emit_def)
  have i: "init gss_Client False ''empty-request-id'' new_brokerCxn ?b ?w1
     = Done (None, new_brokerCxn\<lparr>mechanism := Some ''GSSAPI'', AuthRequestId := ''empty-request-id''\<rparr>,
         ?b,
         ?w1\<lparr>nauths := Suc (nauths ?w1), ticks := Suc (ticks ?w1),
           outbound := outbound ?w1 @ [[0, 0, 0, 1, 1]], inbound := inbound (gss_world 16)\<rparr>)"
    by (simp add: init_def s Let_def del: One_nat_def)
  have l: "loadConnection gss_Client ''empty-request-id''
      \<lparr>rtype = other_request 3 False, Version = 0\<rparr> ?b ?w
     = Done (Inr to_cxnNormal,
         ?b\<lparr>cxnNormal := Some (new_brokerCxn\<lparr>mechanism := Some ''GSSAPI'',
            AuthRequestId := ''empty-request-id''\<rparr>)\<rparr>,
         ?w1\<lparr>nauths := Suc (nauths ?w1), ticks := Suc (ticks ?w1),
           outbound := outbound ?w1 @ [[0, 0, 0, 1, 1]], inbound := inbound (gss_world 16)\<rparr>)"
    by (simp add: loadConnection_def route_def Key_def isTimeoutRequest_def alive_def c i Let_def
          del: One_nat_def)
  have r16: "replicate 16 x = x # replicate 15 x" for x :: "byte list"
    using replicate_Suc[of 15 x] by simp
  show ?thesis
    unfolding l
    by (simp add: gss_world_def example_world_def emit_def replicate_append_same r16)
qed

lemma well_formed_live_broker: "well_formed live_broker"
  by (simp add: well_formed_def wf_cxn_def live_broker_def example_broker_def new_brokerCxn_def)

lemma checkVersion_live_Normal:
  "checkVersion example_Client (Some (replicate 68 1))
     \<lparr>rtype = other_request 3 False, Version = 0\<rparr> = Done (Inr 1)"
  by (simp add: checkVersion_def useVersion_def versions_index_def Key_def word_sle_eq
        word_sless_alt Let_def)

lemma Milliseconds_produceTimeout:
  "(ucast (Milliseconds (10000000000 :: Duration)) :: int32) = 10000"
  by (simp add: Milliseconds_def quot_def)

subsection \<open>What a call of writeRequest writes\<close>







subsection \<open>The turns of the loop of doSasl\<close>












subsection \<open>Evaluating a session of three turns\<close>

lemma lifetime_Client_simps [simp]:
  "IsFlexible lifetime_Client = (\<lambda>k v. False)"
  "ReadFrom_SASLAuthenticate lifetime_Client
     = (\<lambda>v b. Inr (0, None, [], case b of [] \<Rightarrow> 0 | x # rest \<Rightarrow> ucast x * 1000))"
  "maxBrokerReadBytes lifetime_Client = 104857600"
  "SkipTags lifetime_Client = (\<lambda>b. Inr b)"
  "AppendRequest lifetime_Client = AppendRequest example_Client"
  by (simp_all add: lifetime_Client_def example_Client_def)

lemma lifetime_clock [simp]: "clock lifetime_world n = int n * 1000000000"
  by (simp add: lifetime_world_def)


lemma lifetime_frame:
  "AppendRequest example_Client \<lparr>rtype = SASLAuthenticateRequest cw, Version = 1\<rparr> k
     = [0, 0, 0, 8, 0, 36, 0, 1] @ BigEndian_PutUint32 k"
  by (simp add: example_Client_def Key_def BigEndian_PutUint32_def)










section \<open>The claims\<close>

subsection \<open>parseReadSize\<close>

text \<open>Claim C9.  \<open>parseReadSize\<close> is a left inverse of the length-prefix encoding: for every
  integer \<open>N\<close> with \<open>0 \<le> N \<le> maxBrokerReadBytes\<close>, decoding the four big-endian bytes
  of \<open>N\<close> returns \<open>N\<close> without error; and every prefix that decodes to a negative value
  is rejected with the negative-size error.\<close>

theorem parseReadSize_left_inverse:
  "(0 \<le> N \<and> N \<le> sint maxSize \<longrightarrow>
      parseReadSize maxSize (BigEndian_PutUint32 (word_of_int N)) = Inr (word_of_int N)
      \<and> sint (word_of_int N :: int32) = N)
   \<and> (sint (BigEndian_Uint32 sizeBuf) < 0 \<longrightarrow>
      parseReadSize maxSize sizeBuf = Inl (ErrInvalidNegativeSize (BigEndian_Uint32 sizeBuf)))"
proof -
  have "parseReadSize maxSize (BigEndian_PutUint32 (word_of_int N)) = Inr (word_of_int N)
      \<and> sint (word_of_int N :: int32) = N" if "0 \<le> N" "N \<le> sint maxSize"
  proof -
    have s: "sint (word_of_int N :: int32) = N" using that by (rule sint_word_of_int_32)
    have "BigEndian_Uint32 (BigEndian_PutUint32 (word_of_int N)) = word_of_int N"
      using Uint32_PutUint32[of "word_of_int N" "[]"] by simp
    then show ?thesis using s that
      by (simp add: parseReadSize_def word_sless_alt Let_def)
  qed
  then show ?thesis
    by (simp add: parseReadSize_def word_sless_alt Let_def)
qed

theorem parseReadSize_left_inverse_witness:
  "parseReadSize 104857600 (BigEndian_PutUint32 77) = Inr 77
   \<and> BigEndian_PutUint32 77 = [0, 0, 0, 77]
   \<and> parseReadSize 104857600 [0xFF, 0xFF, 0xFF, 0xFE] = Inl (ErrInvalidNegativeSize (- 2))"
  using parseReadSize_left_inverse[of 77 104857600 "[0xFF, 0xFF, 0xFF, 0xFE]"]
  by (simp add: BigEndian_Uint32_def BigEndian_PutUint32_def)

text \<open>Claim C3, evaluated on the code.  With the default limit of 100 MiB, the four bytes
  \<open>HTTP\<close> (0x48545450, above the limit) are answered with the plain
  invalid-large-response-size error, not with the hint about the broker port: the code
  compares the limit \<open>maxSize\<close>, not the decoded size, with 0x48545450.\<close>

theorem parseReadSize_HTTP_not_hinted:
  "parseReadSize 104857600 [0x48, 0x54, 0x54, 0x50] = Inl (ErrLargeSize 0x48545450 104857600)"
  by (simp add: parseReadSize_def BigEndian_Uint32_def word_sless_alt)

text \<open>Claim C4 as stated fails: the bytes 15 03 05 00 decode to a size above the limit,
  0x0305 is outside 0x0300..0x0304, and the TLS hint is given all the same (with the
  text for an unknown version).\<close>

theorem parseReadSize_TLS_counterexample:
  "parseReadSize 104857600 [0x15, 0x03, 0x05, 0x00]
     = Inl (ErrLargeSizeTLS 0x15030500 104857600 (UnknownTLSVersion 0x0305))"
  by (simp add: parseReadSize_def BigEndian_Uint32_def versionGuess_def tls_guesses_def word_sless_alt)

text \<open>Claim C4, amended.  For every four-byte prefix whose decoded value is non-negative
  and above the limit: the TLS hint is returned if the first byte is 0x15 and the 16-bit
  value of the next two bytes has one of the bits 0x0300 set, and in no other case; the
  hint names the version when that value is 0x0300..0x0304 and reports an unknown
  version otherwise; and a prefix that is no such TLS alert, when neither the limit nor
  the decoded value is 0x48545450, gets the plain invalid-large-response-size error.\<close>

theorem parseReadSize_oversize:
  assumes "sz = BigEndian_Uint32 [b0, b1, b2, b3]"
    and "tlsVersion = (push_bit 8 (ucast b1) OR ucast b2 :: uint16)"
    and "0 \<le> sint sz" and "sint maxSize < sint sz"
  shows "(b0 = 21 \<and> tlsVersion AND 0x0300 \<noteq> 0 \<longrightarrow>
            parseReadSize maxSize [b0, b1, b2, b3]
              = Inl (ErrLargeSizeTLS sz maxSize (versionGuess tlsVersion)))
       \<and> (\<not> (b0 = 21 \<and> tlsVersion AND 0x0300 \<noteq> 0) \<longrightarrow>
            (\<forall>g. parseReadSize maxSize [b0, b1, b2, b3] \<noteq> Inl (ErrLargeSizeTLS sz maxSize g)))
       \<and> (\<not> (b0 = 21 \<and> tlsVersion AND 0x0300 \<noteq> 0) \<and> maxSize \<noteq> 0x48545450 \<and> sz \<noteq> 0x48545450 \<longrightarrow>
            parseReadSize maxSize [b0, b1, b2, b3] = Inl (ErrLargeSize sz maxSize))
       \<and> versionGuess tlsVersion =
            (if tlsVersion = 0x0300 then KnownVersion ''SSL v3''
             else if tlsVersion = 0x0301 then KnownVersion ''TLS v1.0''
             else if tlsVersion = 0x0302 then KnownVersion ''TLS v1.1''
             else if tlsVersion = 0x0303 then KnownVersion ''TLS v1.2''
             else if tlsVersion = 0x0304 then KnownVersion ''TLS v1.3''
             else UnknownTLSVersion tlsVersion)"
proof -
  have notHTTP: "maxSize \<noteq> 0x48545450" if "b0 = 21"
  proof
    assume "maxSize = 0x48545450"
    then have "sint maxSize = 0x48545450" by simp
    moreover have "sint sz < 0x48545450"
      using TLS_alert_below_HTTP[of b1 b2 b3] assms(1,3) that by simp
    ultimately show False using assms(4) by simp
  qed
  have eq: "parseReadSize maxSize [b0, b1, b2, b3] =
     (if maxSize = 0x48545450 then Inl (ErrLargeSizeHTTP sz maxSize)
      else if b0 = 21 \<and> tlsVersion AND 0x0300 \<noteq> 0
           then Inl (ErrLargeSizeTLS sz maxSize (versionGuess tlsVersion))
           else Inl (ErrLargeSize sz maxSize))"
    using assms by (simp add: parseReadSize_def word_sless_alt Let_def)
  have hint: "b0 = 21 \<and> tlsVersion AND 0x0300 \<noteq> 0 \<longrightarrow>
            parseReadSize maxSize [b0, b1, b2, b3]
              = Inl (ErrLargeSizeTLS sz maxSize (versionGuess tlsVersion))"
    unfolding eq using notHTTP by simp
  have only_then: "\<not> (b0 = 21 \<and> tlsVersion AND 0x0300 \<noteq> 0) \<longrightarrow>
            (\<forall>g. parseReadSize maxSize [b0, b1, b2, b3] \<noteq> Inl (ErrLargeSizeTLS sz maxSize g))"
    unfolding eq by simp
  have plain: "\<not> (b0 = 21 \<and> tlsVersion AND 0x0300 \<noteq> 0) \<and> maxSize \<noteq> 0x48545450
            \<and> sz \<noteq> 0x48545450 \<longrightarrow>
            parseReadSize maxSize [b0, b1, b2, b3] = Inl (ErrLargeSize sz maxSize)"
    unfolding eq by simp
  from hint only_then plain versionGuess_cases[of tlsVersion] show ?thesis
    by (intro conjI)
qed

theorem parseReadSize_oversize_witness:
  "parseReadSize 104857600 [0x15, 0x03, 0x03, 0x00]
      = Inl (ErrLargeSizeTLS 0x15030300 104857600 (KnownVersion ''TLS v1.2''))
   \<and> parseReadSize 104857600 [0x15, 0x01, 0x00, 0x00]
      = Inl (ErrLargeSizeTLS 0x15010000 104857600 (UnknownTLSVersion 0x0100))
   \<and> parseReadSize 104857600 [0x15, 0x00, 0x03, 0x00]
      = Inl (ErrLargeSize 0x15000300 104857600)"
  using parseReadSize_oversize[of "0x15030300" "0x15" "0x03" "0x03" "0x00" "0x0303" "104857600"]
        parseReadSize_oversize[of "0x15010000" "0x15" "0x01" "0x00" "0x00" "0x0100" "104857600"]
        parseReadSize_oversize[of "0x15000300" "0x15" "0x00" "0x03" "0x00" "0x0003" "104857600"]
  by (simp add: BigEndian_Uint32_def)

subsection \<open>readResponse\<close>

text \<open>Claim C10.  When \<open>readConn\<close> has read a frame without error and its payload is shorter
  than four bytes, \<open>readResponse\<close> returns \<open>kbin.ErrNotEnoughData\<close>; the correlation ID is
  compared, and \<open>errCorrelationIDMismatch\<close> returned on a difference, only for a payload
  of at least four bytes.  In particular a frame on the wire whose length prefix is
  0..3 (and within the read limit) followed by that many bytes is answered with
  \<open>ErrNotEnoughData\<close>, whatever the expected correlation ID.\<close>

theorem readResponse_short_payload:
  "(readConn cl w = ((n, buf, None), w1) \<and> length buf < 4 \<longrightarrow>
      readResponse cl c flex w = (Inl ErrNotEnoughData, w1))
   \<and> (readConn cl w = ((n, buf, None), w1) \<and> 4 \<le> length buf \<longrightarrow>
      readResponse cl c flex w =
        (if BigEndian_Uint32 buf \<noteq> c then (Inl errCorrelationIDMismatch, w1)
         else if flex then (SkipTags cl (drop 4 buf), w1) else (Inr (drop 4 buf), w1)))
   \<and> (length payload < 4 \<and> int (length payload) \<le> sint (maxBrokerReadBytes cl)
        \<and> inbound w = BigEndian_PutUint32 (of_nat (length payload)) @ payload @ rest \<longrightarrow>
      readResponse cl c flex w = (Inl ErrNotEnoughData, w\<lparr>inbound := rest\<rparr>))"
proof -
  have frame: "readConn cl w = ((4 + length payload, payload, None), w\<lparr>inbound := rest\<rparr>)"
    if "length payload < 4" "int (length payload) \<le> sint (maxBrokerReadBytes cl)"
       "inbound w = BigEndian_PutUint32 (of_nat (length payload)) @ payload @ rest"
  proof -
    let ?n = "of_nat (length payload) :: int32"
    have p: "parseReadSize (maxBrokerReadBytes cl) (BigEndian_PutUint32 ?n) = Inr ?n"
      using parseReadSize_left_inverse[of "int (length payload)" "maxBrokerReadBytes cl"] that(2)
      by simp
    have u: "unat ?n = length payload"
      using that(1) by (simp add: unat_of_nat)
    show ?thesis
      using that p u
      by (simp add: readConn_def io_ReadFull_def length_PutUint32)
  qed
  show ?thesis
    using frame by (auto simp: readResponse_def Let_def)
qed

theorem readResponse_short_payload_witness:
  "readResponse example_Client 7 False (example_world\<lparr>inbound := [0, 0, 0, 2, 0xAA, 0xBB, 9, 9]\<rparr>)
     = (Inl ErrNotEnoughData, example_world\<lparr>inbound := [9, 9]\<rparr>)
   \<and> readResponse example_Client 7 False
        (example_world\<lparr>inbound := [0, 0, 0, 5, 0, 0, 0, 8, 0xAA, 9, 9]\<rparr>)
     = (Inl errCorrelationIDMismatch, example_world\<lparr>inbound := [9, 9]\<rparr>)"
proof -
  let ?w = "example_world\<lparr>inbound := [0, 0, 0, 2, 0xAA, 0xBB, 9, 9]\<rparr>"
  let ?v = "example_world\<lparr>inbound := [0, 0, 0, 5, 0, 0, 0, 8, 0xAA, 9, 9]\<rparr>"
  have r: "readConn example_Client ?v
             = ((9, [0, 0, 0, 8, 0xAA], None), example_world\<lparr>inbound := [9, 9]\<rparr>)"
    by (simp add: readConn_def io_ReadFull_def parseReadSize_def BigEndian_Uint32_def
          example_Client_def example_world_def word_sless_alt)
  have "readResponse example_Client 7 False ?w = (Inl ErrNotEnoughData, ?w\<lparr>inbound := [9, 9]\<rparr>)"
    using readResponse_short_payload[where cl = example_Client and w = ?w and c = 7
        and flex = False and payload = "[0xAA, 0xBB]" and rest = "[9, 9]"]
    by (simp add: BigEndian_PutUint32_def example_Client_def example_world_def)
  moreover have "readResponse example_Client 7 False ?v
      = (Inl errCorrelationIDMismatch, example_world\<lparr>inbound := [9, 9]\<rparr>)"
    using readResponse_short_payload[where cl = example_Client and w = ?v and n = 9
        and buf = "[0, 0, 0, 8, 0xAA]" and ?w1.0 = "example_world\<lparr>inbound := [9, 9]\<rparr>"
        and c = 7 and flex = False] r
    by (simp add: BigEndian_Uint32_def)
  ultimately show ?thesis by simp
qed

subsection \<open>writeRequest\<close>



subsection \<open>requestAPIVersions\<close>



subsection \<open>doSasl\<close>




subsection \<open>handleReq\<close>

text \<open>Claim C2, evaluated on the code.  The test made before the versions table is
  indexed is \<open>int(req.Key()) > v.len()\<close>, and \<open>v.len()\<close> is \<open>kmsg.MaxKey + 1\<close>: with
  \<open>MaxKey = 67\<close> a request of key 68 passes it, and so does one of key -1, since no test
  looks for a negative key.  With no \<open>maxVersions\<close> configured, \<open>v.versions[req.Key()]\<close>
  then panics with an index out of range; the promise is not failed with
  \<open>errUnknownRequestKey\<close>.\<close>

theorem handleReq_key_out_of_range:
  "handleReq example_Client (request_with_key 68) live_broker live_world = Panic ''index out of range''
   \<and> handleReq example_Client (request_with_key (- 1)) live_broker live_world
       = Panic ''index out of range''
   \<and> MaxKey example_Client = 67"
proof -
  have c68: "checkVersion example_Client (Some (replicate 68 1))
      \<lparr>rtype = other_request 68 False, Version = 0\<rparr> = Panic ''index out of range''"
    by (simp add: checkVersion_def versions_index_def Key_def word_sle_eq)
  have cm1: "checkVersion example_Client (Some (replicate 68 1))
      \<lparr>rtype = other_request (- 1) False, Version = 0\<rparr> = Panic ''index out of range''"
    by (simp add: checkVersion_def versions_index_def Key_def word_sle_eq)
  show ?thesis
    by (simp add: handleReq_def request_with_key_def live_ctx_def loadConnection_live_Normal
          c68 cm1 Let_def)
qed

text \<open>Claim C7.  Whatever the peer does, one call of \<open>handleReq\<close> that returns has
  started at most 15 reauthentications.  When the loop's condition holds with the counter
  at 16 (the expiry is set and has passed), the promise is failed with
  \<open>errSaslReauthLoop\<close> and the connection dies: the socket is closed and the response
  queue killed.  When the loop so leaves \<open>handleReq\<close>, the broker's field holds a
  connection that is not alive; and \<open>loadConnection\<close> for a request routed to a field
  whose connection is not alive dials once.\<close>

theorem handleReq_reauth_limit:
  "(handleReq cl pr b w = Done (b', w') \<longrightarrow> reauths w' \<le> reauths w + 15)
   \<and> (expiry cxn \<noteq> 0 \<and> expiry cxn < clock v (ticks v) \<and> dead cxn = 0 \<longrightarrow>
        reauthenticate cl b0 pr rid 16 cxn v
          = Done (False, cxn\<lparr>dead := 1, resps := ring_die (resps cxn)\<rparr>,
              emit CloseConn
                (emit (Promise (pr_promise pr) nil_Response (Some errSaslReauthLoop))
                   (v\<lparr>ticks := Suc (ticks v)\<rparr>))))
   \<and> (pr_ctx pr = Some ctx
        \<and> requestId = (case ctx_requestId ctx of Some r \<Rightarrow> r | None \<Rightarrow> ''empty-request-id'')
        \<and> loadConnection cl requestId (pr_req pr) b w = Done (Inr pcxn, b1, w1)
        \<and> deref pcxn b1 = Some cxn0
        \<and> checkVersion cl (versions b1) (pr_req pr) = Done (Inr version)
        \<and> reauthenticate cl b1 pr requestId 1 cxn0 w1 = Done (False, cxn1, w2) \<longrightarrow>
        handleReq cl pr b w = Done (assign pcxn (Some cxn1) b1, w2)
        \<and> \<not> alive (deref pcxn (assign pcxn (Some cxn1) b1)))
   \<and> (\<not> alive (deref (fst (route req)) b2)
        \<and> loadConnection cl rid2 req b2 v2 = Done (r, b3, v3) \<longrightarrow>
        ndials v3 = Suc (ndials v2))"
proof -
  have p1: "handleReq cl pr b w = Done (b', w') \<longrightarrow> reauths w' \<le> reauths w + 15"
    by (auto dest: handleReq_bound)
  have p2: "expiry cxn \<noteq> 0 \<and> expiry cxn < clock v (ticks v) \<and> dead cxn = 0 \<longrightarrow>
        reauthenticate cl b0 pr rid 16 cxn v
          = Done (False, cxn\<lparr>dead := 1, resps := ring_die (resps cxn)\<rparr>,
              emit CloseConn
                (emit (Promise (pr_promise pr) nil_Response (Some errSaslReauthLoop))
                   (v\<lparr>ticks := Suc (ticks v)\<rparr>)))"
    by (subst reauthenticate.simps) (simp add: time_Now_def die_def)
  have p3: "pr_ctx pr = Some ctx
        \<and> requestId = (case ctx_requestId ctx of Some r \<Rightarrow> r | None \<Rightarrow> ''empty-request-id'')
        \<and> loadConnection cl requestId (pr_req pr) b w = Done (Inr pcxn, b1, w1)
        \<and> deref pcxn b1 = Some cxn0
        \<and> checkVersion cl (versions b1) (pr_req pr) = Done (Inr version)
        \<and> reauthenticate cl b1 pr requestId 1 cxn0 w1 = Done (False, cxn1, w2) \<longrightarrow>
        handleReq cl pr b w = Done (assign pcxn (Some cxn1) b1, w2)
        \<and> \<not> alive (deref pcxn (assign pcxn (Some cxn1) b1))"
  proof
    assume a: "pr_ctx pr = Some ctx
        \<and> requestId = (case ctx_requestId ctx of Some r \<Rightarrow> r | None \<Rightarrow> ''empty-request-id'')
        \<and> loadConnection cl requestId (pr_req pr) b w = Done (Inr pcxn, b1, w1)
        \<and> deref pcxn b1 = Some cxn0
        \<and> checkVersion cl (versions b1) (pr_req pr) = Done (Inr version)
        \<and> reauthenticate cl b1 pr requestId 1 cxn0 w1 = Done (False, cxn1, w2)"
    then have c1: "pr_ctx pr = Some ctx"
      and c2: "requestId = (case ctx_requestId ctx of Some r \<Rightarrow> r | None \<Rightarrow> ''empty-request-id'')"
      and c3: "loadConnection cl requestId (pr_req pr) b w = Done (Inr pcxn, b1, w1)"
      and c4: "deref pcxn b1 = Some cxn0"
      and c5: "checkVersion cl (versions b1) (pr_req pr) = Done (Inr version)"
      and c6: "reauthenticate cl b1 pr requestId 1 cxn0 w1 = Done (False, cxn1, w2)"
      by blast+
    have "handleReq cl pr b w = Done (assign pcxn (Some cxn1) b1, w2)"
      using handleReq_stages[OF c1 c2 c3 c4 c5 c6] by simp
    moreover have "dead cxn1 = 1"
      using reauthenticate_bound[OF c6] by simp
    ultimately show "handleReq cl pr b w = Done (assign pcxn (Some cxn1) b1, w2)
        \<and> \<not> alive (deref pcxn (assign pcxn (Some cxn1) b1))"
      by (simp add: alive_def)
  qed
  have p4: "\<not> alive (deref (fst (route req)) b2)
        \<and> loadConnection cl rid2 req b2 v2 = Done (r, b3, v3) \<longrightarrow>
        ndials v3 = Suc (ndials v2)"
    using loadConnection_dials[of req b2 cl rid2 v2 r b3 v3] by simp
  show ?thesis
    by (rule conjI[OF p1 conjI[OF p2 conjI[OF p3 p4]]])
qed

theorem handleReq_reauth_limit_witness:
  "handleReq gss_Client (request_with_key 3) gss_broker (gss_world 0)
     = Done (gss_broker\<lparr>cxnNormal := Some (gss_cxn\<lparr>dead := 1, resps := ring_die (resps gss_cxn)\<rparr>)\<rparr>,
         emit CloseConn (emit (Promise 1 nil_Response (Some errSaslReauthLoop))
           ((gss_world 15)\<lparr>ticks := 31\<rparr>)))
   \<and> reauths (gss_world 0) = 0
   \<and> reauths (emit CloseConn (emit (Promise 1 nil_Response (Some errSaslReauthLoop))
           ((gss_world 15)\<lparr>ticks := 31\<rparr>))) \<le> 15
   \<and> \<not> alive (cxnNormal
          (gss_broker\<lparr>cxnNormal := Some (gss_cxn\<lparr>dead := 1, resps := ring_die (resps gss_cxn)\<rparr>)\<rparr>))
   \<and> ndials ((gss_world 16)\<lparr>ndials := 1,
          events := [Dial, CloseConn, Promise 1 nil_Response (Some errSaslReauthLoop)]
             @ replicate 15 LogReauthenticating\<rparr>)
       = Suc (ndials (emit CloseConn (emit (Promise 1 nil_Response (Some errSaslReauthLoop))
           ((gss_world 15)\<lparr>ticks := 31\<rparr>))))"
proof -
  let ?pr = "request_with_key 3"
  let ?req = "\<lparr>rtype = other_request 3 False, Version = 0\<rparr>"
  let ?cxn1 = "gss_cxn\<lparr>dead := 1, resps := ring_die (resps gss_cxn)\<rparr>"
  let ?b2 = "gss_broker\<lparr>cxnNormal := Some ?cxn1\<rparr>"
  let ?w2 = "emit CloseConn (emit (Promise 1 nil_Response (Some errSaslReauthLoop))
           ((gss_world 15)\<lparr>ticks := 31\<rparr>))"
  let ?b3 = "gss_broker\<lparr>cxnNormal := Some (new_brokerCxn\<lparr>mechanism := Some ''GSSAPI'',
         AuthRequestId := ''empty-request-id''\<rparr>)\<rparr>"
  let ?v3 = "(gss_world 16)\<lparr>ndials := 1,
          events := [Dial, CloseConn, Promise 1 nil_Response (Some errSaslReauthLoop)]
             @ replicate 15 LogReauthenticating\<rparr>"
  note T = handleReq_reauth_limit[where cl = gss_Client and pr = ?pr and b = gss_broker
      and w = "gss_world 0" and b' = ?b2 and w' = ?w2
      and cxn = gss_cxn and v = "gss_world 15" and ?b0.0 = gss_broker
      and rid = "''empty-request-id''"
      and ctx = live_ctx and requestId = "''empty-request-id''" and pcxn = to_cxnNormal
      and ?b1.0 = gss_broker and ?w1.0 = "gss_world 0" and ?cxn0.0 = gss_cxn and version = 1
      and ?cxn1.0 = ?cxn1 and ?w2.0 = ?w2
      and req = ?req and ?b2.0 = ?b2 and ?rid2.0 = "''empty-request-id''" and ?v2.0 = ?w2
      and r = "Inr to_cxnNormal" and ?b3.0 = ?b3 and ?v3.0 = ?v3]
  have r16: "reauthenticate gss_Client gss_broker ?pr ''empty-request-id'' 16 gss_cxn (gss_world 15)
      = Done (False, ?cxn1, ?w2)"
    using T by simp
  have r1: "reauthenticate gss_Client gss_broker ?pr ''empty-request-id'' 1 gss_cxn (gss_world 0)
      = Done (False, ?cxn1, ?w2)"
    using gss_rounds[of 15 gss_broker ?pr] r16 by simp
  have h: "handleReq gss_Client ?pr gss_broker (gss_world 0) = Done (?b2, ?w2)"
    using T r1 by (simp add: gss_loadConnection gss_checkVersion)
  have n: "ndials ?v3 = Suc (ndials ?w2)"
    using T gss_redial by (simp add: route_def Key_def isTimeoutRequest_def alive_def)
  have le: "reauths ?w2 \<le> reauths (gss_world 0) + 15"
    using T h by simp
  have z: "reauths (gss_world 0) = 0"
    by (simp add: reauths_def)
  have a: "\<not> alive (cxnNormal ?b2)"
    by (simp add: alive_def)
  from h z le a n show ?thesis
    by simp
qed

text \<open>Claim C8 as stated fails.  The client's own \<open>*produceRequest\<close> with \<open>acks = 0\<close> is a
  produce request dispatched when the configured acks is 0.  The type switch neither
  rewrites it nor allocates \<open>noResp\<close>: after the write the promise is called with the nil
  \<open>*kmsg.ProduceResponse\<close>.\<close>

theorem handleReq_produceRequest_counterexample:
  "handleReq example_Client (produce_request (produceRequest 0)) live_broker live_world
     = Done (live_broker\<lparr>cxnProduce := Some (new_brokerCxn\<lparr>corrID := 1\<rparr>)\<rparr>,
         live_world\<lparr>ticks := 1,
           outbound := [[0, 0, 0, 8, 0, 0, 0, 1, 0, 0, 0, 0]],
           events := [Promise 1 (ProduceResponse_ptr None) None]\<rparr>)
   \<and> acks example_Client = 0"
proof -
  let ?req = "\<lparr>rtype = produceRequest 0, Version = 0\<rparr>"
  have k: "Key ?req = 0" by (simp add: Key_def)
  let ?req1 = "\<lparr>rtype = produceRequest 0, Version = 1\<rparr>"
  have sw: "produceSwitch example_Client ?req1 = (?req\<lparr>Version := 1\<rparr>, True, None)"
    by (simp add: produceSwitch_def)
  have fr: "AppendRequest example_Client ?req1 0 = [0, 0, 0, 8, 0, 0, 0, 1, 0, 0, 0, 0]"
    by (simp add: example_Client_def Key_def BigEndian_PutUint32_def)
  have ev: "events live_world = []" by (simp add: live_world_def example_world_def)
  have i: "issue example_Client (produce_request (produceRequest 0)) ?req1
             new_brokerCxn live_world
     = (new_brokerCxn\<lparr>corrID := 1\<rparr>,
        live_world\<lparr>ticks := 1,
           outbound := [[0, 0, 0, 8, 0, 0, 0, 1, 0, 0, 0, 0]],
           events := [Promise 1 (ProduceResponse_ptr None) None]\<rparr>)"
    by (simp add: issue_def sw writeRequest_live fr emit_def ev)
  show ?thesis
    by (simp add: handleReq_def loadConnection_live_Produce[OF k] checkVersion_live_Produce[OF k]
          reauthenticate_no_expiry i Let_def del: One_nat_def)
qed

text \<open>Claim C8, amended.  Take a call of \<open>handleReq\<close> on a well-formed broker with a
  context that is not cancelled, in which a connection is loaded, a version chosen, the
  reauthentication loop left normally and the request written without error.  The request
  gets no response (\<open>isNoResp\<close>) exactly when it is a \<open>*produceRequest\<close> whose own \<open>acks\<close>
  is 0, or a \<open>*kmsg.ProduceRequest\<close> and the configured acks is 0.  A
  \<open>*kmsg.ProduceRequest\<close> is written with \<open>Acks\<close> set to the configured acks and, when
  that is 0, \<open>TimeoutMillis\<close> set to the produce timeout in milliseconds; its \<open>noResp\<close> is
  a new \<open>ProduceResponse\<close> of the chosen version.  A \<open>*produceRequest\<close> is written as it
  is and its \<open>noResp\<close> is the nil pointer.  With \<open>isNoResp\<close> the promise is called at once
  with \<open>noResp\<close> and no error, and the response queue is as before; otherwise a
  \<open>promisedResp\<close> with the correlation ID and the bytes written is appended to the queue,
  and \<open>handleResps\<close> is started if the queue was empty.\<close>

theorem handleReq_produce:
  assumes "well_formed b"
    and "pr_ctx pr = Some ctx"
    and "ctx_Err ctx = None"
    and "requestId = (case ctx_requestId ctx of Some r \<Rightarrow> r | None \<Rightarrow> ''empty-request-id'')"
    and "loadConnection cl requestId (pr_req pr) b w = Done (Inr pcxn, b1, w1)"
    and "deref pcxn b1 = Some cxn"
    and "checkVersion cl (versions b1) (pr_req pr) = Done (Inr version)"
    and "reauthenticate cl b1 pr requestId 1 cxn w1 = Done (True, cxn1, w2)"
    and "produceSwitch cl ((pr_req pr)\<lparr>Version := version\<rparr>) = (req1, isNoResp, noResp)"
    and "writeRequest cl (Some ctx) req1 cxn1 w2 = ((c, n, None), cxn2, w3)"
  shows "(isNoResp \<longleftrightarrow>
            (case rtype (pr_req pr) of
               produceRequest r_acks \<Rightarrow> r_acks = 0
             | kmsg_ProduceRequest r_Acks r_TimeoutMillis \<Rightarrow> acks cl = 0
             | _ \<Rightarrow> False))
     \<and> (rtype (pr_req pr) = kmsg_ProduceRequest a t \<longrightarrow>
          req1 = \<lparr>rtype = kmsg_ProduceRequest (acks cl)
                   (if acks cl = 0 then ucast (Milliseconds (produceTimeout cl)) else t),
                  Version = version\<rparr>
          \<and> noResp = Some (NewPtrProduceResponse\<lparr>resp_Version := version\<rparr>))
     \<and> (rtype (pr_req pr) = produceRequest a \<longrightarrow>
          req1 = (pr_req pr)\<lparr>Version := version\<rparr> \<and> noResp = None)
     \<and> (isNoResp \<longrightarrow>
          handleReq cl pr b w
            = Done (assign pcxn (Some cxn2) b1,
                emit (Promise (pr_promise pr) (ProduceResponse_ptr noResp) None) w3)
          \<and> resps cxn2 = resps cxn)
     \<and> (\<not> isNoResp \<longrightarrow>
          handleReq cl pr b w
            = Done (assign pcxn
                (Some (cxn2\<lparr>resps := (resps cxn)\<lparr>elems := elems (resps cxn) @
                   [\<lparr>p_corrID = c,
                     p_flexibleHeader = (IsFlexible cl (Key req1) (Version req1) \<and> Key req1 \<noteq> 18),
                     p_resp = ResponseKind req1, p_promise = pr_promise pr,
                     p_bytesWritten = n\<rparr>]\<rparr>\<rparr>)) b1,
                if elems (resps cxn) = [] then emit GoHandleResps w3 else w3))"
proof -
  have alive: "\<not> ring_dead (resps cxn)"
    using loadConnection_alive[OF assms(1) assms(5)] assms(6) by auto
  have r1: "resps cxn1 = resps cxn"
    using reauthenticate_bound[OF assms(8)] by simp
  have r2: "resps cxn2 = resps cxn1"
    using steady_writeRequest[OF assms(10)] by (simp add: steady_def)
  have h: "handleReq cl pr b w =
      (case issue cl pr ((pr_req pr)\<lparr>Version := version\<rparr>) cxn1 w2 of
         (cxn2, w3) \<Rightarrow> Done (assign pcxn (Some cxn2) b1, w3))"
    using handleReq_stages[OF assms(2) assms(4) assms(5) assms(6) assms(7) assms(8)] assms(3)
    by simp
  have i: "issue cl pr ((pr_req pr)\<lparr>Version := version\<rparr>) cxn1 w2 =
      (if isNoResp
       then (cxn2, emit (Promise (pr_promise pr) (ProduceResponse_ptr noResp) None) w3)
       else waitResp
              \<lparr>p_corrID = c,
               p_flexibleHeader = (IsFlexible cl (Key req1) (Version req1) \<and> Key req1 \<noteq> 18),
               p_resp = ResponseKind req1, p_promise = pr_promise pr,
               p_bytesWritten = n\<rparr> cxn2 w3)"
    using assms(2) assms(9) assms(10) by (simp add: issue_def)
  have p4: "isNoResp \<longrightarrow>
          handleReq cl pr b w
            = Done (assign pcxn (Some cxn2) b1,
                emit (Promise (pr_promise pr) (ProduceResponse_ptr noResp) None) w3)
          \<and> resps cxn2 = resps cxn"
    using h i r1 r2 by simp
  have p5: "\<not> isNoResp \<longrightarrow>
          handleReq cl pr b w
            = Done (assign pcxn
                (Some (cxn2\<lparr>resps := (resps cxn)\<lparr>elems := elems (resps cxn) @
                   [\<lparr>p_corrID = c,
                     p_flexibleHeader = (IsFlexible cl (Key req1) (Version req1) \<and> Key req1 \<noteq> 18),
                     p_resp = ResponseKind req1, p_promise = pr_promise pr,
                     p_bytesWritten = n\<rparr>]\<rparr>\<rparr>)) b1,
                if elems (resps cxn) = [] then emit GoHandleResps w3 else w3)"
    using h i r1 r2 alive by (simp add: waitResp_def ring_push_def Let_def)
  have p123: "(isNoResp \<longleftrightarrow>
            (case rtype (pr_req pr) of
               produceRequest r_acks \<Rightarrow> r_acks = 0
             | kmsg_ProduceRequest r_Acks r_TimeoutMillis \<Rightarrow> acks cl = 0
             | _ \<Rightarrow> False))
     \<and> (rtype (pr_req pr) = kmsg_ProduceRequest a t \<longrightarrow>
          req1 = \<lparr>rtype = kmsg_ProduceRequest (acks cl)
                   (if acks cl = 0 then ucast (Milliseconds (produceTimeout cl)) else t),
                  Version = version\<rparr>
          \<and> noResp = Some (NewPtrProduceResponse\<lparr>resp_Version := version\<rparr>))
     \<and> (rtype (pr_req pr) = produceRequest a \<longrightarrow>
          req1 = (pr_req pr)\<lparr>Version := version\<rparr> \<and> noResp = None)"
    using produceSwitch_cases[OF assms(9), where a = a and t = t] by simp
  from p123 p4 p5 show ?thesis by blast
qed

theorem handleReq_produce_witness:
  "handleReq example_Client (produce_request (kmsg_ProduceRequest 1 500)) live_broker live_world
     = Done (live_broker\<lparr>cxnProduce := Some (new_brokerCxn\<lparr>corrID := 1\<rparr>)\<rparr>,
         emit (Promise 1
                 (ProduceResponse_ptr (Some (NewPtrProduceResponse\<lparr>resp_Version := 1\<rparr>))) None)
           (live_world\<lparr>ticks := 1,
              outbound := [AppendRequest example_Client
                \<lparr>rtype = kmsg_ProduceRequest 0 10000, Version = 1\<rparr> 0]\<rparr>))
   \<and> handleReq example_Client (request_with_key 3) live_broker live_world
     = Done (live_broker\<lparr>cxnNormal := Some (new_brokerCxn\<lparr>corrID := 1,
           resps := \<lparr>elems = [\<lparr>p_corrID = 0, p_flexibleHeader = False,
                                p_resp = Response_shell 3 1, p_promise = 1,
                                p_bytesWritten = 12\<rparr>],
                      ring_dead = False\<rparr>\<rparr>)\<rparr>,
         emit GoHandleResps
           (live_world\<lparr>ticks := 1,
              outbound := [AppendRequest example_Client
                \<lparr>rtype = other_request 3 False, Version = 1\<rparr> 0]\<rparr>))"
proof -
  let ?p = "\<lparr>rtype = kmsg_ProduceRequest 1 500, Version = 0\<rparr>"
  let ?p1 = "\<lparr>rtype = kmsg_ProduceRequest 0 10000, Version = 1\<rparr>"
  let ?q = "\<lparr>rtype = other_request 3 False, Version = 0\<rparr>"
  let ?q1 = "\<lparr>rtype = other_request 3 False, Version = 1\<rparr>"
  have kp: "Key ?p = 0" by (simp add: Key_def)
  have rid: "''empty-request-id'' =
      (case ctx_requestId live_ctx of Some r \<Rightarrow> r | None \<Rightarrow> ''empty-request-id'')"
    by simp
  have swp: "produceSwitch example_Client (?p\<lparr>Version := 1\<rparr>)
      = (?p1, True, Some (NewPtrProduceResponse\<lparr>resp_Version := 1\<rparr>))"
    by (simp add: produceSwitch_def Let_def Milliseconds_produceTimeout)
  have swq: "produceSwitch example_Client (?q\<lparr>Version := 1\<rparr>) = (?q1, False, None)"
    by (simp add: produceSwitch_def)
  have A: "handleReq example_Client (produce_request (kmsg_ProduceRequest 1 500)) live_broker
        live_world
     = Done (assign to_cxnProduce (Some (new_brokerCxn\<lparr>corrID := 1\<rparr>)) live_broker,
         emit (Promise (pr_promise (produce_request (kmsg_ProduceRequest 1 500)))
                 (ProduceResponse_ptr (Some (NewPtrProduceResponse\<lparr>resp_Version := 1\<rparr>))) None)
           (live_world\<lparr>ticks := 1, outbound := [AppendRequest example_Client ?p1 0]\<rparr>))"
    using handleReq_produce[where b = live_broker
        and pr = "produce_request (kmsg_ProduceRequest 1 500)" and ctx = live_ctx
        and requestId = "''empty-request-id''" and cl = example_Client and w = live_world
        and pcxn = to_cxnProduce and ?b1.0 = live_broker and ?w1.0 = live_world
        and cxn = new_brokerCxn and version = 1 and ?cxn1.0 = new_brokerCxn
        and ?w2.0 = live_world and ?req1.0 = ?p1 and isNoResp = True
        and noResp = "Some (NewPtrProduceResponse\<lparr>resp_Version := 1\<rparr>)"
        and c = 0 and n = 12 and ?cxn2.0 = "new_brokerCxn\<lparr>corrID := 1\<rparr>"
        and ?w3.0 = "live_world\<lparr>ticks := 1, outbound := [AppendRequest example_Client ?p1 0]\<rparr>"
        and a = 1 and t = 500]
      well_formed_live_broker rid swp
      loadConnection_live_Produce[OF kp, of "''empty-request-id''" live_world]
      checkVersion_live_Produce[OF kp]
      reauthenticate_no_expiry[of new_brokerCxn example_Client live_broker
        "produce_request (kmsg_ProduceRequest 1 500)" "''empty-request-id''" 1 live_world]
      writeRequest_live[of ?p1]
    by (simp del: One_nat_def)
  have B: "handleReq example_Client (request_with_key 3) live_broker live_world
     = Done (assign to_cxnNormal
         (Some (new_brokerCxn\<lparr>corrID := 1,
            resps := (resps new_brokerCxn)\<lparr>elems := elems (resps new_brokerCxn) @
               [\<lparr>p_corrID = 0,
                 p_flexibleHeader = (IsFlexible example_Client (Key ?q1) (Version ?q1)
                    \<and> Key ?q1 \<noteq> 18),
                 p_resp = ResponseKind ?q1, p_promise = pr_promise (request_with_key 3),
                 p_bytesWritten = 12\<rparr>]\<rparr>\<rparr>)) live_broker,
         if elems (resps new_brokerCxn) = []
         then emit GoHandleResps
                (live_world\<lparr>ticks := 1, outbound := [AppendRequest example_Client ?q1 0]\<rparr>)
         else live_world\<lparr>ticks := 1, outbound := [AppendRequest example_Client ?q1 0]\<rparr>)"
    using handleReq_produce[where b = live_broker
        and pr = "request_with_key 3" and ctx = live_ctx
        and requestId = "''empty-request-id''" and cl = example_Client and w = live_world
        and pcxn = to_cxnNormal and ?b1.0 = live_broker and ?w1.0 = live_world
        and cxn = new_brokerCxn and version = 1 and ?cxn1.0 = new_brokerCxn
        and ?w2.0 = live_world and ?req1.0 = ?q1 and isNoResp = False
        and noResp = None
        and c = 0 and n = 12 and ?cxn2.0 = "new_brokerCxn\<lparr>corrID := 1\<rparr>"
        and ?w3.0 = "live_world\<lparr>ticks := 1, outbound := [AppendRequest example_Client ?q1 0]\<rparr>"
        and a = 1 and t = 500]
      well_formed_live_broker rid swq
      loadConnection_live_Normal[of 3 "''empty-request-id''" live_world]
      checkVersion_live_Normal
      reauthenticate_no_expiry[of new_brokerCxn example_Client live_broker
        "request_with_key 3" "''empty-request-id''" 1 live_world]
      writeRequest_live[of ?q1]
    by (simp del: One_nat_def)
  have kq: "Key ?q1 = 3" by (simp add: Key_def)
  have rk: "ResponseKind ?q1 = Response_shell 3 1" by (simp add: ResponseKind_def kq)
  from A B show ?thesis
    by (simp add: kq rk del: One_nat_def)
qed

end
